theory Spec2Isabelle
  imports Complex_Main "HOL-Library.Word"
begin

section \<open>The point-cloud based occupancy grid map node\<close>

text \<open>
  A shallow embedding of \<^verbatim>\<open>pointcloud_based_occupancy_grid_map_node.cpp\<close>: the node's
  constructor, its synchronised point-cloud callback and the conversion of a grid into
  an occupancy-grid message. What the file calls but does not define (the parameter
  server, the point-cloud utilities, the transform lookup, the operations of the grid
  classes, the cost table) is a field of the record \<open>Env\<close>, so that every statement
  below holds for whatever those collaborators compute. Subscriptions, the publisher
  objects and the stop watch's state belong to the host and are not part of the node
  here.
\<close>

subsection \<open>Numbers\<close>

text \<open>
  A C++ \<^verbatim>\<open>double\<close> or \<^verbatim>\<open>float\<close> is represented by the real number it holds.
  Subtraction and division of doubles are the exact operation followed by the rounding
  to a double, as IEEE 754 defines them; the rounding itself, the narrowing of a double
  to a float and the conversion of a double to an unsigned integer are not computed
  here: they are fields of \<open>Env\<close>. Widening a float to a double is exact. Infinities
  and NaN are not real numbers: the result of a division by zero is the host's
  \<open>div_by_zero\<close>. Unsigned 32-bit and 8-bit integers are words; \<^verbatim>\<open>int32\<close> and
  \<^verbatim>\<open>int8\<close> are words read with \<open>sint\<close>.
\<close>

type_synonym double = real
type_synonym float = real
type_synonym u32 = "32 word"
type_synonym u8 = "8 word"
type_synonym i32 = "32 word"
type_synonym i8 = "8 word"

subsection \<open>Messages\<close>

record Time =
  sec :: i32
  nanosec :: u32

record Header =
  stamp :: Time
  frame_id :: string

text \<open>
  Of a \<^verbatim>\<open>sensor_msgs::PointCloud2\<close> the node reads only the header; the point data
  is handed on to the utilities unread.
\<close>

record PointCloud2 =
  pc_header :: Header
  pc_data :: "u8 list"

record Point =
  px :: double
  py :: double
  pz :: double

record Quaternion =
  qx :: double
  qy :: double
  qz :: double
  qw :: double

record Pose =
  position :: Point
  orientation :: Quaternion

record MapMetaData =
  map_load_time :: Time
  resolution :: float
  width :: u32
  height :: u32
  origin :: Pose

record OccupancyGrid =
  header :: Header
  info :: MapMetaData
  data :: "i8 list"

subsection \<open>The grid\<close>

text \<open>
  Modelled from the spec: the class \<^verbatim>\<open>Costmap2D\<close> (base of both the single-frame grid
  and the updater) is declared outside this file. Section 3 of the specification gives
  a grid its width and height in cells, its resolution, the world-space origin of its
  lower-left corner and a dense array of per-cell states. The record has one field per
  accessor the node calls, under the accessor's name.
\<close>

record Costmap2D =
  getSizeInCellsX :: u32
  getSizeInCellsY :: u32
  getResolution :: double
  getOriginX :: double
  getOriginY :: double
  getCharMap :: "u8 list"

text \<open>
  Modelled from the spec: cell access is declared outside this file. The array is in
  row-major order (section 6), so the cell in column \<open>mx\<close> of row \<open>my\<close> is at index
  \<open>my * width + mx\<close>. Access is bounds-checked (section 4.1): outside the grid, or
  outside its array, it fails with \<open>IndexOutOfBounds\<close>.
\<close>

datatype grid_error = InvalidDimension | IndexOutOfBounds



text \<open>
  Modelled from the spec: the constructors of the grid classes are outside this file.
  By section 4.1, \<open>create(width, height, resolution)\<close> allocates all cells as
  \<open>Unknown\<close> and fails with \<open>InvalidDimension\<close> if width, height or resolution is not
  positive. \<open>created unknown w h r g\<close> says that \<open>g\<close> is a grid which creation with
  these arguments returns, \<open>unknown\<close> being the byte of an unknown cell; for arguments
  on which creation fails there is no such grid. The specification leaves the origin of
  a new grid open, and so does this.
\<close>

definition created :: "u8 \<Rightarrow> u32 \<Rightarrow> u32 \<Rightarrow> double \<Rightarrow> Costmap2D \<Rightarrow> bool" where
  "created unknown w h r g =
     (0 < w \<and> 0 < h \<and> 0 < r \<and>
      getSizeInCellsX g = w \<and> getSizeInCellsY g = h \<and> getResolution g = r \<and>
      getCharMap g = replicate (unat w * unat h) unknown)"


subsection \<open>Collaborators\<close>

text \<open>
  \<open>'tf\<close> is the content of the transform buffer \<^verbatim>\<open>*tf2_\<close>. A utility that reports
  failure by returning \<^verbatim>\<open>false\<close> yields \<open>None\<close>; \<^verbatim>\<open>getPose\<close>, which throws
  \<^verbatim>\<open>tf2::TransformException\<close>, yields \<open>Inl\<close> of the exception's \<^verbatim>\<open>what()\<close>. The two
  overloads of \<^verbatim>\<open>getPose\<close> are two fields.
\<close>

record 'tf Env =
  declare_parameter_string :: "string \<Rightarrow> string \<Rightarrow> string"
  declare_parameter_bool :: "string \<Rightarrow> bool \<Rightarrow> bool"
  declare_parameter_double :: "string \<Rightarrow> double \<Rightarrow> double"
  cropPointcloudByHeight ::
    "PointCloud2 \<Rightarrow> 'tf \<Rightarrow> string \<Rightarrow> float \<Rightarrow> float \<Rightarrow> PointCloud2 option"
  extractCommonPointCloud :: "PointCloud2 \<Rightarrow> PointCloud2 \<Rightarrow> PointCloud2 option"
  getPose_header :: "Header \<Rightarrow> 'tf \<Rightarrow> string \<Rightarrow> string + Pose"
  getPose_stamp :: "Time \<Rightarrow> 'tf \<Rightarrow> string \<Rightarrow> string \<Rightarrow> string + Pose"
  OccupancyGridMapBBFUpdater :: "u32 \<Rightarrow> u32 \<Rightarrow> double \<Rightarrow> Costmap2D"
  OccupancyGridMap :: "u32 \<Rightarrow> u32 \<Rightarrow> double \<Rightarrow> Costmap2D"
  getSizeInMetersX :: "Costmap2D \<Rightarrow> double"
  getSizeInMetersY :: "Costmap2D \<Rightarrow> double"
  updateOrigin :: "Costmap2D \<Rightarrow> double \<Rightarrow> double \<Rightarrow> Costmap2D"
  raycast :: "Costmap2D \<Rightarrow> Pose \<Rightarrow> PointCloud2 \<Rightarrow> PointCloud2 \<Rightarrow> Costmap2D"
  update :: "Costmap2D \<Rightarrow> Costmap2D \<Rightarrow> Costmap2D"
  cost_translation_table :: "u8 \<Rightarrow> i8"
  round_double :: "real \<Rightarrow> double"
  div_by_zero :: "double \<Rightarrow> double"
  float_of_double :: "double \<Rightarrow> float"
  uint_of_double :: "double \<Rightarrow> u32"

text \<open>The two operations on doubles that the file performs.\<close>

definition sub_double :: "'tf Env \<Rightarrow> double \<Rightarrow> double \<Rightarrow> double" where
  "sub_double env a b = round_double env (a - b)"

definition div_double :: "'tf Env \<Rightarrow> double \<Rightarrow> double \<Rightarrow> double" where
  "div_double env a b = (if b = 0 then div_by_zero env a else round_double env (a / b))"

text \<open>
  Modelled from the spec: the body of the updater's \<^verbatim>\<open>update\<close> is outside this file. By
  section 4.3 the Fuser merges the single-frame grid into the persistent one cell by
  cell and reconciles the origin, the resolution being constant; by sections 3 and 6
  the grid is of fixed resolution and its width, height and resolution are immutable
  for the run. \<open>update_keeps_size env\<close> says that of the host's \<open>update\<close>.
\<close>

definition update_keeps_size :: "'tf Env \<Rightarrow> bool" where
  "update_keeps_size env =
     (\<forall>g single_frame.
        getSizeInCellsX (update env g single_frame) = getSizeInCellsX g \<and>
        getSizeInCellsY (update env g single_frame) = getSizeInCellsY g \<and>
        getResolution (update env g single_frame) = getResolution g)"

text \<open>
  Modelled from the spec: the body of \<^verbatim>\<open>OccupancyGridMap::updateWithPointCloud\<close> is
  outside this file. The node calls it on the single-frame grid with the raw cloud, the
  obstacle cloud, the robot pose and the scan origin. The specification's Raycaster
  (sections 2 and 4.2) is given a grid, a scan origin and the observations, and section
  6 says of the platform pose that it is ``carried through to output metadata, not
  consumed by the algorithm itself''. So the robot pose is accepted and not used; the
  ray casting itself is the field \<open>raycast\<close>.
\<close>

definition updateWithPointCloud ::
  "'tf Env \<Rightarrow> Costmap2D \<Rightarrow> PointCloud2 \<Rightarrow> PointCloud2 \<Rightarrow> Pose \<Rightarrow> Pose \<Rightarrow> Costmap2D" where
  "updateWithPointCloud env g raw_pointcloud obstacle_pointcloud robot_pose scan_origin =
     raycast env g scan_origin raw_pointcloud obstacle_pointcloud"

subsection \<open>The node\<close>

text \<open>
  The members the constructor sets. \<open>occupancy_grid_map_updater\<close> is the object behind
  \<^verbatim>\<open>occupancy_grid_map_updater_ptr_\<close>, the persistent grid. \<^verbatim>\<open>declare_parameter\<close> is
  taken to return the parameter's value, or the default when none is set; the
  division and the conversion of its result to \<^verbatim>\<open>unsigned int\<close> are the host's.
\<close>

record Node =
  map_frame :: string
  base_link_frame :: string
  gridmap_origin_frame :: string
  scan_origin_frame :: string
  use_height_filter :: bool
  enable_single_frame_mode :: bool
  filter_obstacle_pointcloud_by_raw_pointcloud :: bool
  occupancy_grid_map_updater :: Costmap2D

definition PointcloudBasedOccupancyGridMapNode :: "'tf Env \<Rightarrow> Node" where
  "PointcloudBasedOccupancyGridMapNode env =
     (let map_length = declare_parameter_double env ''map_length'' 100;
          map_resolution = declare_parameter_double env ''map_resolution'' (1 / 2)
      in \<lparr>map_frame = declare_parameter_string env ''map_frame'' ''map'',
          base_link_frame = declare_parameter_string env ''base_link_frame'' ''base_link'',
          gridmap_origin_frame =
            declare_parameter_string env ''gridmap_origin_frame'' ''base_link'',
          scan_origin_frame = declare_parameter_string env ''scan_origin_frame'' ''base_link'',
          use_height_filter = declare_parameter_bool env ''use_height_filter'' True,
          enable_single_frame_mode =
            declare_parameter_bool env ''enable_single_frame_mode'' False,
          filter_obstacle_pointcloud_by_raw_pointcloud =
            declare_parameter_bool env ''filter_obstacle_pointcloud_by_raw_pointcloud'' False,
          occupancy_grid_map_updater =
            OccupancyGridMapBBFUpdater env
              (uint_of_double env (div_double env map_length map_resolution))
              (uint_of_double env (div_double env map_length map_resolution))
              map_resolution\<rparr>)"

subsection \<open>From a grid to a message\<close>

text \<open>
  Reading \<^verbatim>\<open>data[i]\<close> beyond the grid's array is undefined behaviour in C++; the model
  stops with \<open>OutOfBoundsRead\<close> there.
\<close>

datatype error = OutOfBoundsRead

text \<open>
  The loop \<^verbatim>\<open>for (unsigned int i = 0; i < msg_ptr->data.size(); ++i)\<close>. The vector's
  size is below \<open>2 ^ 32\<close>, so the counter never wraps and is a natural number here.
\<close>

function translate_cells :: "(u8 \<Rightarrow> i8) \<Rightarrow> u8 list \<Rightarrow> nat \<Rightarrow> i8 list \<Rightarrow> error + i8 list" where
  "translate_cells table cells i msg_data =
     (if i < length msg_data then
        (if i < length cells
         then translate_cells table cells (Suc i) (msg_data[i := table (cells ! i)])
         else Inl OutOfBoundsRead)
      else Inr msg_data)"
  by pat_completeness auto
termination
  by (relation "measure (\<lambda>(table, cells, i, msg_data). length msg_data - i)") auto

declare translate_cells.simps [simp del]

text \<open>
  \<^verbatim>\<open>robot_pose_z\<close> is a \<^verbatim>\<open>float\<close> parameter. The call to \<^verbatim>\<open>mapToWorld(0, 0, wx, wy)\<close>
  writes two locals that are never read and is left out. The fields of the message
  that the function does not assign keep their zero initial values.
\<close>

definition OccupancyGridMapToMsgPtr ::
  "'tf Env \<Rightarrow> string \<Rightarrow> Time \<Rightarrow> float \<Rightarrow> Costmap2D \<Rightarrow> error + OccupancyGrid" where
  "OccupancyGridMapToMsgPtr env frame stamp' robot_pose_z occupancy_grid_map =
     (let info_width = getSizeInCellsX occupancy_grid_map;
          info_height = getSizeInCellsY occupancy_grid_map
      in case translate_cells (cost_translation_table env) (getCharMap occupancy_grid_map) 0
                (replicate (unat (info_width * info_height)) 0) of
           Inl e \<Rightarrow> Inl e
         | Inr msg_data \<Rightarrow>
             Inr \<lparr>header = \<lparr>stamp = stamp', frame_id = frame\<rparr>,
                  info = \<lparr>map_load_time = \<lparr>sec = 0, nanosec = 0\<rparr>,
                          resolution = float_of_double env (getResolution occupancy_grid_map),
                          width = info_width,
                          height = info_height,
                          origin = \<lparr>position = \<lparr>px = getOriginX occupancy_grid_map,
                                                 py = getOriginY occupancy_grid_map,
                                                 pz = robot_pose_z\<rparr>,
                                    orientation = \<lparr>qx = 0, qy = 0, qz = 0, qw = 1\<rparr>\<rparr>\<rparr>,
                  data = msg_data\<rparr>)"

subsection \<open>One cycle\<close>

text \<open>
  What a run of the callback receives: the two synchronised clouds, the content of the
  transform buffer at that moment, and the two readings the stop watch gives at the end
  of the cycle (lines 172 and 173; the reading on line 98 only restarts the processing
  timer). What it does to the outside, in order: messages on the grid publisher,
  warnings on the logger, values on the debug publisher.
\<close>

record 'tf Cycle =
  input_obstacle_msg :: PointCloud2
  input_raw_msg :: PointCloud2
  tf2 :: 'tf
  cyclic_time_ms :: double
  processing_time_ms :: double

datatype Effect =
    Publish OccupancyGrid
  | Warn string
  | DebugPublish string double

text \<open>
  Lines 100 to 117: the height filter, with \<^verbatim>\<open>min_height = -1.0\<close> and
  \<^verbatim>\<open>max_height = 2.0\<close>. \<open>None\<close> is the early \<^verbatim>\<open>return\<close>.
\<close>

definition apply_height_filter ::
  "'tf Env \<Rightarrow> Node \<Rightarrow> 'tf Cycle \<Rightarrow> (PointCloud2 \<times> PointCloud2) option" where
  "apply_height_filter env n c =
     (if use_height_filter n then
        (case cropPointcloudByHeight env (input_obstacle_msg c) (tf2 c) (base_link_frame n)
                (- 1) 2 of
           None \<Rightarrow> None
         | Some cropped_obstacle_pc \<Rightarrow>
             (case cropPointcloudByHeight env (input_raw_msg c) (tf2 c) (base_link_frame n)
                     (- 1) 2 of
                None \<Rightarrow> None
              | Some cropped_raw_pc \<Rightarrow> Some (cropped_obstacle_pc, cropped_raw_pc)))
      else Some (input_obstacle_msg c, input_raw_msg c))"

text \<open>Lines 119 to 128: the obstacle cloud filtered by the raw cloud.\<close>

definition filter_obstacle_pointcloud ::
  "'tf Env \<Rightarrow> Node \<Rightarrow> PointCloud2 \<Rightarrow> PointCloud2 \<Rightarrow> PointCloud2" where
  "filter_obstacle_pointcloud env n filtered_obstacle_pc filtered_raw_pc =
     (if filter_obstacle_pointcloud_by_raw_pointcloud n then
        (case extractCommonPointCloud env filtered_obstacle_pc filtered_raw_pc of
           None \<Rightarrow> filtered_obstacle_pc
         | Some filtered_obstacle_pc_common \<Rightarrow> filtered_obstacle_pc_common)
      else filtered_obstacle_pc)"

text \<open>
  Lines 130 to 143: the three poses, in the order robot, grid origin, scan origin. The
  first lookup that throws ends the \<^verbatim>\<open>try\<close> block.
\<close>

definition get_poses :: "'tf Env \<Rightarrow> Node \<Rightarrow> 'tf Cycle \<Rightarrow> string + (Pose \<times> Pose \<times> Pose)" where
  "get_poses env n c =
     (case getPose_header env (pc_header (input_raw_msg c)) (tf2 c) (map_frame n) of
        Inl ex \<Rightarrow> Inl ex
      | Inr robot_pose \<Rightarrow>
          (case getPose_stamp env (stamp (pc_header (input_raw_msg c))) (tf2 c)
                  (gridmap_origin_frame n) (map_frame n) of
             Inl ex \<Rightarrow> Inl ex
           | Inr gridmap_origin \<Rightarrow>
               (case getPose_stamp env (stamp (pc_header (input_raw_msg c))) (tf2 c)
                       (scan_origin_frame n) (map_frame n) of
                  Inl ex \<Rightarrow> Inl ex
                | Inr scan_origin \<Rightarrow> Inr (robot_pose, gridmap_origin, scan_origin))))"

text \<open>Lines 145 to 152: the fresh grid, moved to the cycle's origin.\<close>

definition create_single_frame :: "'tf Env \<Rightarrow> Node \<Rightarrow> Pose \<Rightarrow> Costmap2D" where
  "create_single_frame env n gridmap_origin =
     (let single_frame_occupancy_grid_map =
            OccupancyGridMap env
              (getSizeInCellsX (occupancy_grid_map_updater n))
              (getSizeInCellsY (occupancy_grid_map_updater n))
              (getResolution (occupancy_grid_map_updater n))
      in updateOrigin env single_frame_occupancy_grid_map
           (sub_double env (px (position gridmap_origin))
              (div_double env (getSizeInMetersX env single_frame_occupancy_grid_map) 2))
           (sub_double env (py (position gridmap_origin))
              (div_double env (getSizeInMetersY env single_frame_occupancy_grid_map) 2)))"

text \<open>Lines 171 to 178: both pointers are set by the constructor.\<close>

definition debug_publish :: "'tf Cycle \<Rightarrow> Effect list" where
  "debug_publish c =
     [DebugPublish ''debug/cyclic_time_ms'' (cyclic_time_ms c),
      DebugPublish ''debug/processing_time_ms'' (processing_time_ms c)]"

text \<open>Lines 156 to 169: publish the single frame, or fuse it and publish the map.\<close>

definition publish_grid ::
  "'tf Env \<Rightarrow> Node \<Rightarrow> 'tf Cycle \<Rightarrow> Pose \<Rightarrow> Costmap2D \<Rightarrow> error + (Node \<times> Effect list)" where
  "publish_grid env n c robot_pose single_frame_occupancy_grid_map =
     (if enable_single_frame_mode n then
        (case OccupancyGridMapToMsgPtr env (map_frame n) (stamp (pc_header (input_raw_msg c)))
                (float_of_double env (pz (position robot_pose)))
                single_frame_occupancy_grid_map of
           Inl e \<Rightarrow> Inl e
         | Inr msg \<Rightarrow> Inr (n, Publish msg # debug_publish c))
      else
        (let n' = n\<lparr>occupancy_grid_map_updater :=
                     update env (occupancy_grid_map_updater n)
                       single_frame_occupancy_grid_map\<rparr>
         in case OccupancyGridMapToMsgPtr env (map_frame n')
                   (stamp (pc_header (input_raw_msg c)))
                   (float_of_double env (pz (position robot_pose)))
                   (occupancy_grid_map_updater n') of
              Inl e \<Rightarrow> Inl e
            | Inr msg \<Rightarrow> Inr (n', Publish msg # debug_publish c)))"

definition onPointcloudWithObstacleAndRaw ::
  "'tf Env \<Rightarrow> Node \<Rightarrow> 'tf Cycle \<Rightarrow> error + (Node \<times> Effect list)" where
  "onPointcloudWithObstacleAndRaw env n c =
     (case apply_height_filter env n c of
        None \<Rightarrow> Inr (n, [])
      | Some (filtered_obstacle_pc, filtered_raw_pc) \<Rightarrow>
          (let filtered_obstacle_pc_common =
                 filter_obstacle_pointcloud env n filtered_obstacle_pc filtered_raw_pc
           in case get_poses env n c of
                Inl ex \<Rightarrow> Inr (n, [Warn ex])
              | Inr (robot_pose, gridmap_origin, scan_origin) \<Rightarrow>
                  publish_grid env n c robot_pose
                    (updateWithPointCloud env (create_single_frame env n gridmap_origin)
                       filtered_raw_pc filtered_obstacle_pc_common robot_pose scan_origin)))"

subsection \<open>Successive cycles\<close>

text \<open>
  The executor calls the callback once for each synchronised pair of clouds, one call
  after the other; the node each call leaves behind is the node the next one finds.
\<close>

fun run :: "'tf Env \<Rightarrow> Node \<Rightarrow> 'tf Cycle list \<Rightarrow> error + (Node \<times> Effect list)" where
  "run env n [] = Inr (n, [])"
| "run env n (c # cs) =
     (case onPointcloudWithObstacleAndRaw env n c of
        Inl e \<Rightarrow> Inl e
      | Inr (n', effects) \<Rightarrow>
          (case run env n' cs of
             Inl e \<Rightarrow> Inl e
           | Inr (n'', effects') \<Rightarrow> Inr (n'', effects @ effects')))"

text \<open>
  \<open>fused env g g'\<close>: the grid \<open>g'\<close> comes from \<open>g\<close> by a finite number of calls of the
  updater's \<open>update\<close>, each on a single-frame grid that was created with the size and
  resolution of the updater at that moment, moved to an origin, and filled by
  \<open>updateWithPointCloud\<close>.
\<close>

inductive fused :: "'tf Env \<Rightarrow> Costmap2D \<Rightarrow> Costmap2D \<Rightarrow> bool" for env :: "'tf Env" and g :: Costmap2D where
  fused_start: "fused env g g"
| fused_update:
    "fused env g g' \<Longrightarrow>
     fused env g
       (update env g'
          (updateWithPointCloud env
             (updateOrigin env
                (OccupancyGridMap env (getSizeInCellsX g') (getSizeInCellsY g') (getResolution g'))
                ox oy)
             raw_pc obstacle_pc robot_pose scan_origin))"

text \<open>The published origin's height set to zero, to compare two outputs up to it.\<close>

fun erase_origin_z :: "Effect \<Rightarrow> Effect" where
  "erase_origin_z (Publish msg) =
     Publish (msg\<lparr>info := (info msg)\<lparr>origin := (origin (info msg))
       \<lparr>position := (position (origin (info msg)))\<lparr>pz := 0\<rparr>\<rparr>\<rparr>\<rparr>)"
| "erase_origin_z (Warn text) = Warn text"
| "erase_origin_z (DebugPublish topic v) = DebugPublish topic v"

definition up_to_origin_z ::
  "error + Node \<times> Effect list \<Rightarrow> error + Node \<times> Effect list" where
  "up_to_origin_z = map_sum id (map_prod id (map erase_origin_z))"

subsection \<open>A small host\<close>

text \<open>
  A concrete set of collaborators, to run the node on: every parameter keeps its
  default except the map length, which is one metre, so that the grid has two cells by
  two; cropping keeps the bytes up to 2 and pose lookup succeeds, unless the frame asked
  for is \<open>''lost''\<close>; common-point extraction always fails; the raycaster marks the
  cell at index \<open>k\<close> with \<open>k\<close> plus the number of bytes in the obstacle cloud; the
  updater adds the single frame to the map cell by cell; the cost table doubles.
\<close>

definition test_pose :: Pose where
  "test_pose = \<lparr>position = \<lparr>px = 10, py = 20, pz = 3\<rparr>,
                orientation = \<lparr>qx = 0, qy = 0, qz = 0, qw = 1\<rparr>\<rparr>"

definition test_grid :: "u32 \<Rightarrow> u32 \<Rightarrow> double \<Rightarrow> Costmap2D" where
  "test_grid cells_size_x cells_size_y res =
     \<lparr>getSizeInCellsX = cells_size_x, getSizeInCellsY = cells_size_y, getResolution = res,
      getOriginX = 0, getOriginY = 0,
      getCharMap = replicate (unat (cells_size_x * cells_size_y)) 0\<rparr>"

definition test_env :: "unit Env" where
  "test_env =
     \<lparr>declare_parameter_string = (\<lambda>name default. default),
      declare_parameter_bool = (\<lambda>name default. default),
      declare_parameter_double = (\<lambda>name default. if name = ''map_length'' then 1 else default),
      cropPointcloudByHeight =
        (\<lambda>pc tf frame min_height max_height.
           if frame = ''lost'' then None
           else Some (pc\<lparr>pc_data := filter (\<lambda>b. b \<le> 2) (pc_data pc)\<rparr>)),
      extractCommonPointCloud = (\<lambda>obstacle_pc raw_pc. None),
      getPose_header =
        (\<lambda>h tf target. if target = ''lost'' then Inl ''no transform'' else Inr test_pose),
      getPose_stamp =
        (\<lambda>t tf source target.
           if source = ''lost'' then Inl ''no transform'' else Inr test_pose),
      OccupancyGridMapBBFUpdater = test_grid,
      OccupancyGridMap = test_grid,
      getSizeInMetersX = (\<lambda>g. of_nat (unat (getSizeInCellsX g)) * getResolution g),
      getSizeInMetersY = (\<lambda>g. of_nat (unat (getSizeInCellsY g)) * getResolution g),
      updateOrigin = (\<lambda>g ox oy. g\<lparr>getOriginX := ox, getOriginY := oy\<rparr>),
      raycast =
        (\<lambda>g scan_origin raw_pc obstacle_pc.
           g\<lparr>getCharMap :=
               map2 (\<lambda>k b. k + of_nat (length (pc_data obstacle_pc))) [0, 1, 2, 3]
                 (getCharMap g)\<rparr>),
      update =
        (\<lambda>g single_frame.
           g\<lparr>getOriginX := getOriginX single_frame, getOriginY := getOriginY single_frame,
             getCharMap := map2 (+) (getCharMap g) (getCharMap single_frame)\<rparr>),
      cost_translation_table = (\<lambda>b. 2 * b),
      round_double = (\<lambda>r. r),
      div_by_zero = (\<lambda>a. 0),
      float_of_double = (\<lambda>d. d),
      uint_of_double = (\<lambda>d. of_nat (nat \<lfloor>d\<rfloor>))\<rparr>"

definition test_cloud :: PointCloud2 where
  "test_cloud = \<lparr>pc_header = \<lparr>stamp = \<lparr>sec = 7, nanosec = 0\<rparr>, frame_id = ''base_link''\<rparr>,
                 pc_data = [1, 2, 3]\<rparr>"

definition test_cycle :: "unit Cycle" where
  "test_cycle = \<lparr>input_obstacle_msg = test_cloud, input_raw_msg = test_cloud, tf2 = (),
                 cyclic_time_ms = 100, processing_time_ms = 5\<rparr>"

definition test_node :: Node where
  "test_node = PointcloudBasedOccupancyGridMapNode test_env"

text \<open>A grid of three columns and two rows whose cells are all different.\<close>

definition test_map :: Costmap2D where
  "test_map = \<lparr>getSizeInCellsX = 3, getSizeInCellsY = 2, getResolution = 1 / 2,
                getOriginX = - 1, getOriginY = 4, getCharMap = [1, 2, 3, 4, 5, 6]\<rparr>"

text \<open>The message the small host publishes, up to its cells.\<close>

definition test_msg :: "i8 list \<Rightarrow> OccupancyGrid" where
  "test_msg cells =
     \<lparr>header = \<lparr>stamp = \<lparr>sec = 7, nanosec = 0\<rparr>, frame_id = ''map''\<rparr>,
      info = \<lparr>map_load_time = \<lparr>sec = 0, nanosec = 0\<rparr>, resolution = 1 / 2,
              width = 2, height = 2,
              origin = \<lparr>position = \<lparr>px = 19 / 2, py = 39 / 2, pz = 3\<rparr>,
                        orientation = \<lparr>qx = 0, qy = 0, qz = 0, qw = 1\<rparr>\<rparr>\<rparr>,
      data = cells\<rparr>"

text \<open>
  The node the small host constructs and the grids it goes through, by their origin and
  their cells; the cropped test cloud; what a published cycle does to the outside.
\<close>

definition test_config :: "Costmap2D \<Rightarrow> Node" where
  "test_config g =
     \<lparr>map_frame = ''map'', base_link_frame = ''base_link'',
      gridmap_origin_frame = ''base_link'', scan_origin_frame = ''base_link'',
      use_height_filter = True, enable_single_frame_mode = False,
      filter_obstacle_pointcloud_by_raw_pointcloud = False,
      occupancy_grid_map_updater = g\<rparr>"

definition test_cells :: "double \<Rightarrow> double \<Rightarrow> u8 list \<Rightarrow> Costmap2D" where
  "test_cells ox oy cells =
     \<lparr>getSizeInCellsX = 2, getSizeInCellsY = 2, getResolution = 1 / 2,
      getOriginX = ox, getOriginY = oy, getCharMap = cells\<rparr>"

definition test_cropped :: PointCloud2 where
  "test_cropped = test_cloud\<lparr>pc_data := [1, 2]\<rparr>"

definition test_effects :: "i8 list \<Rightarrow> Effect list" where
  "test_effects cells =
     [Publish (test_msg cells),
      DebugPublish ''debug/cyclic_time_ms'' 100,
      DebugPublish ''debug/processing_time_ms'' 5]"

text \<open>A second transform lookup, which puts the robot elsewhere and higher.\<close>

definition test_lookup :: "Header \<Rightarrow> unit \<Rightarrow> string \<Rightarrow> string + Pose" where
  "test_lookup h tf target = Inr (test_pose\<lparr>position := \<lparr>px = 0, py = 0, pz = 40\<rparr>\<rparr>)"

text \<open>A second cycle, whose obstacle cloud differs outside the height band only.\<close>

definition test_cycle_other :: "unit Cycle" where
  "test_cycle_other = test_cycle\<lparr>input_obstacle_msg := test_cloud\<lparr>pc_data := [9, 1, 2, 9]\<rparr>\<rparr>"






section \<open>The conversion loop\<close>



lemma translate_cells_total:
  "length out \<le> length cells \<Longrightarrow> \<exists>r. translate_cells t cells i out = Inr r"
proof (induction t cells i out rule: translate_cells.induct)
  case (1 table cells i msg_data)
  show ?case
  proof (cases "i < length msg_data")
    case False
    then show ?thesis by (simp add: translate_cells.simps)
  next
    case True
    with "1.prems" have inside: "i < length cells" by simp
    from "1.IH" [OF True inside] "1.prems"
    obtain r where "translate_cells table cells (Suc i) (msg_data[i := table (cells ! i)]) = Inr r"
      by auto
    with True inside show ?thesis
      by (simp add: translate_cells.simps [of table cells i msg_data])
  qed
qed


lemma OccupancyGridMapToMsgPtr_total:
  assumes "unat (getSizeInCellsX g * getSizeInCellsY g) \<le> length (getCharMap g)"
  shows "\<exists>msg. OccupancyGridMapToMsgPtr env frame st z g = Inr msg"
proof -
  from assms translate_cells_total [of "replicate (unat (getSizeInCellsX g * getSizeInCellsY g)) 0"
      "getCharMap g" "cost_translation_table env" 0]
  obtain d where "translate_cells (cost_translation_table env) (getCharMap g) 0
          (replicate (unat (getSizeInCellsX g * getSizeInCellsY g)) 0) = Inr d"
    by auto
  then show ?thesis
    by (simp add: OccupancyGridMapToMsgPtr_def Let_def)
qed

section \<open>The shape of a cycle\<close>

text \<open>
  A cycle ends in one of three ways: the height filter fails, a pose lookup throws, or
  the grid is built and published. The lemmas of this section take the callback apart
  along these lines.
\<close>

lemmas cycle_defs =
  onPointcloudWithObstacleAndRaw_def apply_height_filter_def filter_obstacle_pointcloud_def
  get_poses_def create_single_frame_def publish_grid_def updateWithPointCloud_def
  OccupancyGridMapToMsgPtr_def sub_double_def div_double_def

lemmas case_congs = sum.case_cong option.case_cong prod.case_cong if_cong

lemma onPointcloud_cases:
  "onPointcloudWithObstacleAndRaw env n c =
     (case apply_height_filter env n c of
        None \<Rightarrow> Inr (n, [])
      | Some (filtered_obstacle_pc, filtered_raw_pc) \<Rightarrow>
          (case get_poses env n c of
             Inl ex \<Rightarrow> Inr (n, [Warn ex])
           | Inr (robot_pose, gridmap_origin, scan_origin) \<Rightarrow>
               publish_grid env n c robot_pose
                 (updateWithPointCloud env (create_single_frame env n gridmap_origin)
                    filtered_raw_pc
                    (filter_obstacle_pointcloud env n filtered_obstacle_pc filtered_raw_pc)
                    robot_pose scan_origin)))"
  by (simp add: onPointcloudWithObstacleAndRaw_def Let_def split: option.splits prod.splits)

lemma get_poses_fails:
  assumes "getPose_header env (pc_header (input_raw_msg c)) (tf2 c) (map_frame n) = Inl ex_robot \<or>
      getPose_stamp env (stamp (pc_header (input_raw_msg c))) (tf2 c)
        (gridmap_origin_frame n) (map_frame n) = Inl ex_grid \<or>
      getPose_stamp env (stamp (pc_header (input_raw_msg c))) (tf2 c)
        (scan_origin_frame n) (map_frame n) = Inl ex_scan"
  shows "\<exists>ex. get_poses env n c = Inl ex"
proof (cases "getPose_header env (pc_header (input_raw_msg c)) (tf2 c) (map_frame n)")
  case Inl
  then show ?thesis by (simp add: get_poses_def)
next
  case robot: (Inr robot_pose)
  show ?thesis
  proof (cases "getPose_stamp env (stamp (pc_header (input_raw_msg c))) (tf2 c)
        (gridmap_origin_frame n) (map_frame n)")
    case Inl
    with robot show ?thesis by (simp add: get_poses_def)
  next
    case grid: (Inr gridmap_origin)
    with robot assms
    have "getPose_stamp env (stamp (pc_header (input_raw_msg c))) (tf2 c)
        (scan_origin_frame n) (map_frame n) = Inl ex_scan"
      by simp
    with robot grid show ?thesis by (simp add: get_poses_def)
  qed
qed

lemma publish_grid_result:
  assumes "publish_grid env n c robot_pose g = Inr (n', effects)"
  shows "\<exists>msg. effects = Publish msg # debug_publish c \<and>
     (if enable_single_frame_mode n
      then n' = n \<and>
        OccupancyGridMapToMsgPtr env (map_frame n) (stamp (pc_header (input_raw_msg c)))
          (float_of_double env (pz (position robot_pose))) g = Inr msg
      else n' = n\<lparr>occupancy_grid_map_updater := update env (occupancy_grid_map_updater n) g\<rparr> \<and>
        OccupancyGridMapToMsgPtr env (map_frame n) (stamp (pc_header (input_raw_msg c)))
          (float_of_double env (pz (position robot_pose)))
          (occupancy_grid_map_updater n') = Inr msg)"
  using assms by (auto simp: publish_grid_def Let_def split: if_splits sum.splits)

lemma onPointcloud_result:
  assumes "onPointcloudWithObstacleAndRaw env n c = Inr (n', effects)"
  shows "(n' = n \<and> (effects = [] \<or> (\<exists>ex. effects = [Warn ex]))) \<or>
    (\<exists>filtered_obstacle_pc filtered_raw_pc robot_pose gridmap_origin scan_origin.
       apply_height_filter env n c = Some (filtered_obstacle_pc, filtered_raw_pc) \<and>
       get_poses env n c = Inr (robot_pose, gridmap_origin, scan_origin) \<and>
       publish_grid env n c robot_pose
         (updateWithPointCloud env (create_single_frame env n gridmap_origin)
            filtered_raw_pc
            (filter_obstacle_pointcloud env n filtered_obstacle_pc filtered_raw_pc)
            robot_pose scan_origin) = Inr (n', effects))"
  using assms
  by (auto simp: onPointcloud_cases split: option.splits sum.splits prod.splits)

lemma onPointcloud_skipped_or_published:
  assumes "onPointcloudWithObstacleAndRaw env n c = Inr (n', effects)"
  obtains (skipped) "n' = n"
  | (published) filtered_obstacle_pc filtered_raw_pc robot_pose gridmap_origin scan_origin
    where "publish_grid env n c robot_pose
         (updateWithPointCloud env (create_single_frame env n gridmap_origin)
            filtered_raw_pc
            (filter_obstacle_pointcloud env n filtered_obstacle_pc filtered_raw_pc)
            robot_pose scan_origin) = Inr (n', effects)"
  using onPointcloud_result [OF assms] by blast

lemma onPointcloud_config:
  assumes "onPointcloudWithObstacleAndRaw env n c = Inr (n', effects)"
  shows "\<exists>g. n' = n\<lparr>occupancy_grid_map_updater := g\<rparr>"
proof -
  from assms show ?thesis
  proof (cases rule: onPointcloud_skipped_or_published)
    case skipped
    then have "n' = n\<lparr>occupancy_grid_map_updater := occupancy_grid_map_updater n\<rparr>" by simp
    then show ?thesis ..
  next
    case (published filtered_obstacle_pc filtered_raw_pc robot_pose gridmap_origin scan_origin)
    from publish_grid_result [OF this] show ?thesis
      by (cases "enable_single_frame_mode n") (auto intro: exI [of _ "occupancy_grid_map_updater n"])
  qed
qed

lemma onPointcloud_step:
  assumes "onPointcloudWithObstacleAndRaw env n c = Inr (n', effects)"
    and "fused env g (occupancy_grid_map_updater n)"
  shows "fused env g (occupancy_grid_map_updater n')"
proof -
  from assms(1) show ?thesis
  proof (cases rule: onPointcloud_skipped_or_published)
    case skipped
    with assms(2) show ?thesis by simp
  next
    case (published filtered_obstacle_pc filtered_raw_pc robot_pose gridmap_origin scan_origin)
    note result = publish_grid_result [OF this]
    show ?thesis
    proof (cases "enable_single_frame_mode n")
      case True
      with result assms(2) show ?thesis by auto
    next
      case False
      with result
      have "occupancy_grid_map_updater n' =
          update env (occupancy_grid_map_updater n)
            (updateWithPointCloud env (create_single_frame env n gridmap_origin)
               filtered_raw_pc
               (filter_obstacle_pointcloud env n filtered_obstacle_pc filtered_raw_pc)
               robot_pose scan_origin)"
        by auto
      with fused_update [OF assms(2)] show ?thesis
        by (simp add: create_single_frame_def Let_def)
    qed
  qed
qed

text \<open>
  Over any number of cycles, by induction on their list: the node changes in its grid
  only, and the grid comes from the first one by fusing.
\<close>

lemma run_fused:
  "run env n cs = Inr (n', effects) \<Longrightarrow> fused env g (occupancy_grid_map_updater n) \<Longrightarrow>
   fused env g (occupancy_grid_map_updater n')"
proof (induction cs arbitrary: n effects)
  case Nil
  then show ?case by simp
next
  case (Cons c cs)
  from Cons.prems(1) obtain n1 effects1 effects2
    where first: "onPointcloudWithObstacleAndRaw env n c = Inr (n1, effects1)"
      and rest: "run env n1 cs = Inr (n', effects2)"
    by (auto split: sum.splits prod.splits)
  from onPointcloud_step [OF first Cons.prems(2)] show ?case
    by (rule Cons.IH [OF rest])
qed

lemma run_config:
  "run env n cs = Inr (n', effects) \<Longrightarrow> \<exists>g. n' = n\<lparr>occupancy_grid_map_updater := g\<rparr>"
proof (induction cs arbitrary: n effects)
  case Nil
  then have "n' = n\<lparr>occupancy_grid_map_updater := occupancy_grid_map_updater n\<rparr>" by simp
  then show ?case ..
next
  case (Cons c cs)
  from Cons.prems obtain n1 effects1 effects2
    where first: "onPointcloudWithObstacleAndRaw env n c = Inr (n1, effects1)"
      and rest: "run env n1 cs = Inr (n', effects2)"
    by (auto split: sum.splits prod.splits)
  from onPointcloud_config [OF first] obtain g1
    where "n1 = n\<lparr>occupancy_grid_map_updater := g1\<rparr>" ..
  moreover from Cons.IH [OF rest] obtain g2
    where "n' = n1\<lparr>occupancy_grid_map_updater := g2\<rparr>" ..
  ultimately have "n' = n\<lparr>occupancy_grid_map_updater := g2\<rparr>" by simp
  then show ?case ..
qed

text \<open>The callback reads no parameter and constructs no updater.\<close>

lemma onPointcloud_without_constructors:
  "onPointcloudWithObstacleAndRaw
     (env\<lparr>declare_parameter_string := ps, declare_parameter_bool := pb,
          declare_parameter_double := pd, OccupancyGridMapBBFUpdater := create\<rparr>) n c =
   onPointcloudWithObstacleAndRaw env n c"
  by (simp add: cycle_defs cong: case_congs)

lemma run_without_constructors:
  "run (env\<lparr>declare_parameter_string := ps, declare_parameter_bool := pb,
          declare_parameter_double := pd, OccupancyGridMapBBFUpdater := create\<rparr>) n cs =
   run env n cs"
  by (induction cs arbitrary: n)
    (simp_all add: onPointcloud_without_constructors cong: case_congs)

text \<open>The robot pose reaches a published message in the height of its origin only.\<close>

lemma OccupancyGridMapToMsgPtr_up_to_z:
  "map_sum id (\<lambda>msg. erase_origin_z (Publish msg)) (OccupancyGridMapToMsgPtr env frame st z g) =
   map_sum id (\<lambda>msg. erase_origin_z (Publish msg)) (OccupancyGridMapToMsgPtr env frame st z' g)"
  by (simp add: OccupancyGridMapToMsgPtr_def Let_def split: sum.splits)

lemma publish_grid_up_to_z:
  "up_to_origin_z (publish_grid env n c robot_pose g) =
   up_to_origin_z (publish_grid env n c robot_pose' g)"
proof -
  have msg: "(case OccupancyGridMapToMsgPtr env frame st z g' of
           Inl e \<Rightarrow> Inl e
         | Inr msg \<Rightarrow> Inr (m, erase_origin_z (Publish msg) # rest)) =
        (case map_sum id (\<lambda>msg. erase_origin_z (Publish msg))
           (OccupancyGridMapToMsgPtr env frame st z g') of
           Inl e \<Rightarrow> Inl e
         | Inr p \<Rightarrow> Inr (m, p # rest))" for frame st z g' m rest
    by (simp split: sum.splits)
  have "up_to_origin_z (case OccupancyGridMapToMsgPtr env frame st z g' of
           Inl e \<Rightarrow> Inl e
         | Inr msg \<Rightarrow> Inr (m, Publish msg # rest)) =
       up_to_origin_z (case OccupancyGridMapToMsgPtr env frame st z' g' of
           Inl e \<Rightarrow> Inl e
         | Inr msg \<Rightarrow> Inr (m, Publish msg # rest))" for frame st z z' g' m rest
    using OccupancyGridMapToMsgPtr_up_to_z [of env frame st z g' z']
    by (auto simp: up_to_origin_z_def split: sum.splits)
  then show ?thesis
    by (simp add: publish_grid_def Let_def)
qed

text \<open>The obstacle-filter flag is read before the grid is published, not after.\<close>

lemma publish_grid_filter_flag:
  "publish_grid env (n\<lparr>filter_obstacle_pointcloud_by_raw_pointcloud := b\<rparr>) c p g =
   map_sum id (map_prod (\<lambda>n'. n'\<lparr>filter_obstacle_pointcloud_by_raw_pointcloud := b\<rparr>) id)
     (publish_grid env n c p g)"
  by (simp add: publish_grid_def Let_def split: sum.splits)

section \<open>The small host at work\<close>

lemma replicate_4: "replicate 4 x = [x, x, x, x]"
  by (simp add: numeral_eq_Suc)

lemma test_grid_2: "test_grid 2 2 r =
  \<lparr>getSizeInCellsX = 2, getSizeInCellsY = 2, getResolution = r,
      getOriginX = 0, getOriginY = 0, getCharMap = [0, 0, 0, 0]\<rparr>"
  by (simp add: test_grid_def replicate_4)

lemma test_node_eq: "test_node = test_config (test_cells 0 0 [0, 0, 0, 0])"
  by (simp add: test_node_def PointcloudBasedOccupancyGridMapNode_def test_env_def test_grid_2
      test_config_def test_cells_def div_double_def)

lemmas test_defs =
  onPointcloudWithObstacleAndRaw_def apply_height_filter_def filter_obstacle_pointcloud_def
  get_poses_def create_single_frame_def publish_grid_def updateWithPointCloud_def
  debug_publish_def OccupancyGridMapToMsgPtr_def translate_cells.simps
  test_env_def test_cycle_def test_cloud_def test_pose_def test_grid_2 test_msg_def replicate_4
  test_config_def test_cells_def sub_double_def div_double_def


lemma test_poses:
  "get_poses test_env (test_config g) test_cycle = Inr (test_pose, test_pose, test_pose)"
  by (simp add: get_poses_def test_env_def test_config_def test_cycle_def test_cloud_def)

lemma test_cycle_fused:
  "onPointcloudWithObstacleAndRaw test_env (test_config (test_cells ox oy [a, b, c, d])) test_cycle =
     Inr (test_config (test_cells (19 / 2) (39 / 2) [a + 2, b + 3, c + 4, d + 5]),
          [Publish (test_msg [2 * (a + 2), 2 * (b + 3), 2 * (c + 4), 2 * (d + 5)]),
           DebugPublish ''debug/cyclic_time_ms'' 100,
           DebugPublish ''debug/processing_time_ms'' 5])"
  by (simp add: test_defs)

lemma test_cycle_single_frame:
  "onPointcloudWithObstacleAndRaw test_env
     ((test_config (test_cells ox oy [a, b, c, d]))\<lparr>enable_single_frame_mode := True\<rparr>) test_cycle =
     Inr ((test_config (test_cells ox oy [a, b, c, d]))\<lparr>enable_single_frame_mode := True\<rparr>,
          [Publish (test_msg [4, 6, 8, 10]),
           DebugPublish ''debug/cyclic_time_ms'' 100,
           DebugPublish ''debug/processing_time_ms'' 5])"
  by (simp add: test_defs)

lemma test_run_twice:
  "run test_env test_node [test_cycle, test_cycle] =
     Inr (test_config (test_cells (19 / 2) (39 / 2) [4, 6, 8, 10]),
          [Publish (test_msg [4, 6, 8, 10]),
           DebugPublish ''debug/cyclic_time_ms'' 100,
           DebugPublish ''debug/processing_time_ms'' 5,
           Publish (test_msg [8, 12, 16, 20]),
           DebugPublish ''debug/cyclic_time_ms'' 100,
           DebugPublish ''debug/processing_time_ms'' 5])"
  by (simp add: test_node_eq test_cycle_fused)

section \<open>Single-frame mode\<close>

text \<open>
  Claim C1. In a cycle run with single-frame mode enabled, the node and with it the
  persistent grid and its cells are after the cycle what they were before; the cycle's
  outcome is the same whatever the updater's \<open>update\<close> would compute, so it is not
  called; and what is published, when the clouds and poses are there, is the message
  made from the single-frame grid that this cycle built and filled.
\<close>

theorem single_frame_mode_leaves_map_untouched:
  assumes "enable_single_frame_mode n"
  shows "onPointcloudWithObstacleAndRaw (env\<lparr>update := u\<rparr>) n c =
           onPointcloudWithObstacleAndRaw env n c \<and>
    (\<forall>n' effects. onPointcloudWithObstacleAndRaw env n c = Inr (n', effects) \<longrightarrow>
       n' = n \<and>
       (effects = [] \<or> (\<exists>ex. effects = [Warn ex]) \<or>
        (\<exists>filtered_obstacle_pc filtered_raw_pc robot_pose gridmap_origin scan_origin msg.
           apply_height_filter env n c = Some (filtered_obstacle_pc, filtered_raw_pc) \<and>
           get_poses env n c = Inr (robot_pose, gridmap_origin, scan_origin) \<and>
           OccupancyGridMapToMsgPtr env (map_frame n) (stamp (pc_header (input_raw_msg c)))
             (float_of_double env (pz (position robot_pose)))
             (updateWithPointCloud env (create_single_frame env n gridmap_origin)
                filtered_raw_pc
                (filter_obstacle_pointcloud env n filtered_obstacle_pc filtered_raw_pc)
                robot_pose scan_origin) = Inr msg \<and>
           effects = Publish msg # debug_publish c)))"
proof (intro conjI allI impI)
  show "onPointcloudWithObstacleAndRaw (env\<lparr>update := u\<rparr>) n c =
      onPointcloudWithObstacleAndRaw env n c"
    using assms
    by (simp add: cycle_defs cong: sum.case_cong option.case_cong prod.case_cong if_cong)
next
  fix n' effects
  assume run: "onPointcloudWithObstacleAndRaw env n c = Inr (n', effects)"
  with assms show "n' = n"
    by (auto simp: onPointcloud_cases publish_grid_def
        split: option.splits sum.splits prod.splits)
  from run assms
  show "effects = [] \<or> (\<exists>ex. effects = [Warn ex]) \<or>
        (\<exists>filtered_obstacle_pc filtered_raw_pc robot_pose gridmap_origin scan_origin msg.
           apply_height_filter env n c = Some (filtered_obstacle_pc, filtered_raw_pc) \<and>
           get_poses env n c = Inr (robot_pose, gridmap_origin, scan_origin) \<and>
           OccupancyGridMapToMsgPtr env (map_frame n) (stamp (pc_header (input_raw_msg c)))
             (float_of_double env (pz (position robot_pose)))
             (updateWithPointCloud env (create_single_frame env n gridmap_origin)
                filtered_raw_pc
                (filter_obstacle_pointcloud env n filtered_obstacle_pc filtered_raw_pc)
                robot_pose scan_origin) = Inr msg \<and>
           effects = Publish msg # debug_publish c)"
    by (auto simp: onPointcloud_cases publish_grid_def
        split: option.splits sum.splits prod.splits)
qed

theorem single_frame_mode_leaves_map_untouched_witness:
  "enable_single_frame_mode (test_node\<lparr>enable_single_frame_mode := True\<rparr>) \<and>
   onPointcloudWithObstacleAndRaw test_env (test_node\<lparr>enable_single_frame_mode := True\<rparr>)
     test_cycle =
     Inr (test_node\<lparr>enable_single_frame_mode := True\<rparr>, test_effects [4, 6, 8, 10]) \<and>
   onPointcloudWithObstacleAndRaw (test_env\<lparr>update := \<lambda>g single_frame. single_frame\<rparr>)
     (test_node\<lparr>enable_single_frame_mode := True\<rparr>) test_cycle =
     Inr (test_node\<lparr>enable_single_frame_mode := True\<rparr>, test_effects [4, 6, 8, 10])"
proof -
  have mode: "enable_single_frame_mode (test_node\<lparr>enable_single_frame_mode := True\<rparr>)"
    by simp
  from single_frame_mode_leaves_map_untouched [OF mode, where env = test_env
      and u = "\<lambda>g single_frame. single_frame" and c = test_cycle]
  have "onPointcloudWithObstacleAndRaw (test_env\<lparr>update := \<lambda>g single_frame. single_frame\<rparr>)
      (test_node\<lparr>enable_single_frame_mode := True\<rparr>) test_cycle =
    onPointcloudWithObstacleAndRaw test_env (test_node\<lparr>enable_single_frame_mode := True\<rparr>)
      test_cycle"
    by (rule conjunct1)
  then show ?thesis
    by (simp add: test_node_eq test_cycle_single_frame test_effects_def)
qed

section \<open>Failed pose lookups\<close>

text \<open>
  Claim C2. When the lookup of the robot pose, of the grid-origin pose or of the
  scan-origin pose throws a transform exception, the cycle is skipped: the node is left
  as it was, nothing is published (at most the exception's text is logged as a
  warning), and the outcome is the same whatever creating, moving, filling or fusing a
  grid would compute, so no single-frame grid is built.
\<close>

theorem pose_failure_skips_cycle:
  assumes "getPose_header env (pc_header (input_raw_msg c)) (tf2 c) (map_frame n) = Inl ex_robot \<or>
      getPose_stamp env (stamp (pc_header (input_raw_msg c))) (tf2 c)
        (gridmap_origin_frame n) (map_frame n) = Inl ex_grid \<or>
      getPose_stamp env (stamp (pc_header (input_raw_msg c))) (tf2 c)
        (scan_origin_frame n) (map_frame n) = Inl ex_scan"
  shows "(\<exists>effects. onPointcloudWithObstacleAndRaw env n c = Inr (n, effects) \<and>
            (effects = [] \<or> (\<exists>ex. effects = [Warn ex]))) \<and>
         onPointcloudWithObstacleAndRaw
           (env\<lparr>OccupancyGridMap := create, updateOrigin := move, raycast := fill,
                update := fuse\<rparr>) n c =
         onPointcloudWithObstacleAndRaw env n c"
proof -
  from get_poses_fails [OF assms] obtain ex where failed: "get_poses env n c = Inl ex" ..
  have "get_poses (env\<lparr>OccupancyGridMap := create, updateOrigin := move, raycast := fill,
      update := fuse\<rparr>) n c = get_poses env n c"
    by (simp add: get_poses_def cong: sum.case_cong)
  moreover have "apply_height_filter (env\<lparr>OccupancyGridMap := create, updateOrigin := move,
      raycast := fill, update := fuse\<rparr>) n c = apply_height_filter env n c"
    by (simp add: apply_height_filter_def cong: option.case_cong)
  ultimately show ?thesis
    using failed by (auto simp: onPointcloud_cases split: option.splits)
qed

theorem pose_failure_skips_cycle_witness:
  "getPose_stamp test_env (stamp (pc_header (input_raw_msg test_cycle))) (tf2 test_cycle)
     (scan_origin_frame (test_node\<lparr>scan_origin_frame := ''lost''\<rparr>))
     (map_frame (test_node\<lparr>scan_origin_frame := ''lost''\<rparr>)) = Inl ''no transform'' \<and>
   onPointcloudWithObstacleAndRaw test_env (test_node\<lparr>scan_origin_frame := ''lost''\<rparr>) test_cycle =
     Inr (test_node\<lparr>scan_origin_frame := ''lost''\<rparr>, [Warn ''no transform'']) \<and>
   onPointcloudWithObstacleAndRaw
     (test_env\<lparr>OccupancyGridMap := \<lambda>cells_size_x cells_size_y res. test_map,
        updateOrigin := \<lambda>g ox oy. test_map,
        raycast := \<lambda>g scan_origin raw_pc obstacle_pc. test_map,
        update := \<lambda>g single_frame. test_map\<rparr>)
     (test_node\<lparr>scan_origin_frame := ''lost''\<rparr>) test_cycle =
     Inr (test_node\<lparr>scan_origin_frame := ''lost''\<rparr>, [Warn ''no transform''])"
proof -
  have lost: "getPose_stamp test_env (stamp (pc_header (input_raw_msg test_cycle)))
     (tf2 test_cycle) (scan_origin_frame (test_node\<lparr>scan_origin_frame := ''lost''\<rparr>))
     (map_frame (test_node\<lparr>scan_origin_frame := ''lost''\<rparr>)) = Inl ''no transform''"
    by (simp add: test_env_def)
  have skipped: "onPointcloudWithObstacleAndRaw test_env
      (test_node\<lparr>scan_origin_frame := ''lost''\<rparr>) test_cycle =
     Inr (test_node\<lparr>scan_origin_frame := ''lost''\<rparr>, [Warn ''no transform''])"
    by (simp add: test_node_eq test_defs)
  from pose_failure_skips_cycle [where env = test_env and c = test_cycle
      and n = "test_node\<lparr>scan_origin_frame := ''lost''\<rparr>"
      and create = "\<lambda>cells_size_x cells_size_y res. test_map"
      and move = "\<lambda>g ox oy. test_map"
      and fill = "\<lambda>g scan_origin raw_pc obstacle_pc. test_map"
      and fuse = "\<lambda>g single_frame. test_map", OF disjI2, OF disjI2, OF lost]
    lost skipped
  show ?thesis
    by simp
qed

section \<open>The robot pose\<close>

text \<open>
  Claim C3. Two cycles that differ only in the robot pose the transform lookup returns
  leave the same node behind and publish the same messages, cell data included, up to
  the height \<open>z\<close> of the published origin.
\<close>

theorem robot_pose_only_in_origin_z:
  assumes "getPose_header env (pc_header (input_raw_msg c)) (tf2 c) (map_frame n) =
      Inr robot_pose"
    and "lookup (pc_header (input_raw_msg c)) (tf2 c) (map_frame n) = Inr robot_pose'"
  shows "up_to_origin_z (onPointcloudWithObstacleAndRaw (env\<lparr>getPose_header := lookup\<rparr>) n c) =
         up_to_origin_z (onPointcloudWithObstacleAndRaw env n c)"
proof (cases "apply_height_filter env n c")
  case None
  moreover have "apply_height_filter (env\<lparr>getPose_header := lookup\<rparr>) n c =
      apply_height_filter env n c"
    by (simp add: apply_height_filter_def cong: case_congs)
  ultimately show ?thesis
    by (simp add: onPointcloud_cases)
next
  case (Some clouds)
  obtain filtered_obstacle_pc filtered_raw_pc
    where clouds: "clouds = (filtered_obstacle_pc, filtered_raw_pc)"
    by (cases clouds)
  have same_filter: "apply_height_filter (env\<lparr>getPose_header := lookup\<rparr>) n c =
      Some (filtered_obstacle_pc, filtered_raw_pc)"
    using Some clouds by (simp add: apply_height_filter_def cong: case_congs)
  have same_grid: "updateWithPointCloud (env\<lparr>getPose_header := lookup\<rparr>)
        (create_single_frame (env\<lparr>getPose_header := lookup\<rparr>) n gridmap_origin)
        filtered_raw_pc
        (filter_obstacle_pointcloud (env\<lparr>getPose_header := lookup\<rparr>) n
           filtered_obstacle_pc filtered_raw_pc) robot_pose' scan_origin =
      updateWithPointCloud env (create_single_frame env n gridmap_origin) filtered_raw_pc
        (filter_obstacle_pointcloud env n filtered_obstacle_pc filtered_raw_pc)
        robot_pose scan_origin" for gridmap_origin scan_origin
    by (simp add: updateWithPointCloud_def create_single_frame_def sub_double_def
        div_double_def
        filter_obstacle_pointcloud_def cong: case_congs)
  have same_publish: "publish_grid (env\<lparr>getPose_header := lookup\<rparr>) n c p g =
      publish_grid env n c p g" for p g
    by (simp add: publish_grid_def OccupancyGridMapToMsgPtr_def cong: case_congs)
  show ?thesis
  proof (cases "get_poses env n c")
    case (Inl ex)
    with assms have "get_poses (env\<lparr>getPose_header := lookup\<rparr>) n c = Inl ex"
      by (auto simp: get_poses_def split: sum.splits)
    with Inl Some clouds same_filter show ?thesis
      by (simp add: onPointcloud_cases)
  next
    case (Inr poses)
    with assms obtain gridmap_origin scan_origin
      where poses: "get_poses env n c = Inr (robot_pose, gridmap_origin, scan_origin)"
      by (auto simp: get_poses_def split: sum.splits)
    with assms
    have poses': "get_poses (env\<lparr>getPose_header := lookup\<rparr>) n c =
        Inr (robot_pose', gridmap_origin, scan_origin)"
      by (auto simp: get_poses_def split: sum.splits)
    from Some clouds same_filter poses poses' show ?thesis
      by (simp add: onPointcloud_cases same_grid same_publish
          publish_grid_up_to_z [of env n c robot_pose' _ robot_pose])
  qed
qed

theorem robot_pose_only_in_origin_z_witness:
  "getPose_header test_env (pc_header (input_raw_msg test_cycle)) (tf2 test_cycle)
     (map_frame test_node) = Inr test_pose \<and>
   test_lookup (pc_header (input_raw_msg test_cycle)) (tf2 test_cycle) (map_frame test_node) =
     Inr (test_pose\<lparr>position := \<lparr>px = 0, py = 0, pz = 40\<rparr>\<rparr>) \<and>
   up_to_origin_z
     (onPointcloudWithObstacleAndRaw (test_env\<lparr>getPose_header := test_lookup\<rparr>) test_node
        test_cycle) =
   up_to_origin_z (onPointcloudWithObstacleAndRaw test_env test_node test_cycle) \<and>
   onPointcloudWithObstacleAndRaw (test_env\<lparr>getPose_header := test_lookup\<rparr>) test_node
     test_cycle \<noteq>
   onPointcloudWithObstacleAndRaw test_env test_node test_cycle"
proof -
  have here: "getPose_header test_env (pc_header (input_raw_msg test_cycle)) (tf2 test_cycle)
     (map_frame test_node) = Inr test_pose"
    by (simp add: test_env_def test_node_eq test_config_def)
  have there: "test_lookup (pc_header (input_raw_msg test_cycle)) (tf2 test_cycle)
      (map_frame test_node) = Inr (test_pose\<lparr>position := \<lparr>px = 0, py = 0, pz = 40\<rparr>\<rparr>)"
    by (simp add: test_lookup_def)
  have differ: "onPointcloudWithObstacleAndRaw (test_env\<lparr>getPose_header := test_lookup\<rparr>)
      test_node test_cycle \<noteq> onPointcloudWithObstacleAndRaw test_env test_node test_cycle"
    by (simp add: test_node_eq test_defs test_lookup_def)
  from robot_pose_only_in_origin_z [where lookup = test_lookup, OF here there]
    here there differ show ?thesis
    by simp
qed

section \<open>The published snapshot\<close>



text \<open>
  A grid whose array has a cell for each index below width times height is converted
  without leaving the array.
\<close>

lemma OccupancyGridMapToMsgPtr_well_formed:
  assumes "length (getCharMap g) = unat (getSizeInCellsX g) * unat (getSizeInCellsY g)"
    and "unat (getSizeInCellsX g) * unat (getSizeInCellsY g) < 2 ^ 32"
  shows "\<exists>msg. OccupancyGridMapToMsgPtr env frame st z g = Inr msg"
proof -
  from assms(2) have "unat (getSizeInCellsX g * getSizeInCellsY g) =
      unat (getSizeInCellsX g) * unat (getSizeInCellsY g)"
    by (simp add: unat_mult_lem [THEN iffD1])
  with assms(1) show ?thesis
    by (intro OccupancyGridMapToMsgPtr_total) simp
qed







section \<open>The single-frame grid\<close>



section \<open>The persistent grid\<close>

text \<open>
  Claim C7. The persistent grid is the updater the constructor creates. A cycle either
  leaves it as it is, or, outside single-frame mode, replaces it once by the result of
  \<open>update\<close> on it and on the single-frame grid that was created, moved and filled in
  this cycle, and then publishes the message made from the updated grid. No cycle
  constructs an updater. So after any number of cycles the persistent grid comes from
  the constructed one by such updates alone.
\<close>

theorem persistent_grid_fused_once_per_cycle:
  "(\<forall>n' effects. onPointcloudWithObstacleAndRaw env n c = Inr (n', effects) \<longrightarrow>
      n' = n \<and> (enable_single_frame_mode n \<or> effects = [] \<or> (\<exists>ex. effects = [Warn ex])) \<or>
      \<not> enable_single_frame_mode n \<and>
      (\<exists>filtered_obstacle_pc filtered_raw_pc robot_pose gridmap_origin scan_origin msg.
         apply_height_filter env n c = Some (filtered_obstacle_pc, filtered_raw_pc) \<and>
         get_poses env n c = Inr (robot_pose, gridmap_origin, scan_origin) \<and>
         n' = n\<lparr>occupancy_grid_map_updater :=
                  update env (occupancy_grid_map_updater n)
                    (updateWithPointCloud env (create_single_frame env n gridmap_origin)
                       filtered_raw_pc
                       (filter_obstacle_pointcloud env n filtered_obstacle_pc filtered_raw_pc)
                       robot_pose scan_origin)\<rparr> \<and>
         OccupancyGridMapToMsgPtr env (map_frame n) (stamp (pc_header (input_raw_msg c)))
           (float_of_double env (pz (position robot_pose)))
           (occupancy_grid_map_updater n') = Inr msg \<and>
         effects = Publish msg # debug_publish c)) \<and>
   run (env\<lparr>declare_parameter_string := ps, declare_parameter_bool := pb,
          declare_parameter_double := pd, OccupancyGridMapBBFUpdater := create\<rparr>) n cs =
     run env n cs \<and>
   occupancy_grid_map_updater (PointcloudBasedOccupancyGridMapNode env) =
     OccupancyGridMapBBFUpdater env
       (uint_of_double env
          (div_double env (declare_parameter_double env ''map_length'' 100)
             (declare_parameter_double env ''map_resolution'' (1 / 2))))
       (uint_of_double env
          (div_double env (declare_parameter_double env ''map_length'' 100)
             (declare_parameter_double env ''map_resolution'' (1 / 2))))
       (declare_parameter_double env ''map_resolution'' (1 / 2)) \<and>
   (\<forall>n' effects. run env (PointcloudBasedOccupancyGridMapNode env) cs = Inr (n', effects) \<longrightarrow>
      fused env (occupancy_grid_map_updater (PointcloudBasedOccupancyGridMapNode env))
        (occupancy_grid_map_updater n'))"
proof (intro conjI allI impI)
  fix n' effects
  assume cycle: "onPointcloudWithObstacleAndRaw env n c = Inr (n', effects)"
  from onPointcloud_result [OF cycle]
  show "n' = n \<and> (enable_single_frame_mode n \<or> effects = [] \<or> (\<exists>ex. effects = [Warn ex])) \<or>
      \<not> enable_single_frame_mode n \<and>
      (\<exists>filtered_obstacle_pc filtered_raw_pc robot_pose gridmap_origin scan_origin msg.
         apply_height_filter env n c = Some (filtered_obstacle_pc, filtered_raw_pc) \<and>
         get_poses env n c = Inr (robot_pose, gridmap_origin, scan_origin) \<and>
         n' = n\<lparr>occupancy_grid_map_updater :=
                  update env (occupancy_grid_map_updater n)
                    (updateWithPointCloud env (create_single_frame env n gridmap_origin)
                       filtered_raw_pc
                       (filter_obstacle_pointcloud env n filtered_obstacle_pc filtered_raw_pc)
                       robot_pose scan_origin)\<rparr> \<and>
         OccupancyGridMapToMsgPtr env (map_frame n) (stamp (pc_header (input_raw_msg c)))
           (float_of_double env (pz (position robot_pose)))
           (occupancy_grid_map_updater n') = Inr msg \<and>
         effects = Publish msg # debug_publish c)"
  proof (elim disjE exE conjE)
    assume "n' = n" "effects = []"
    then show ?thesis by simp
  next
    fix ex
    assume "n' = n" "effects = [Warn ex]"
    then show ?thesis by simp
  next
    fix filtered_obstacle_pc filtered_raw_pc robot_pose gridmap_origin scan_origin
    assume clouds: "apply_height_filter env n c = Some (filtered_obstacle_pc, filtered_raw_pc)"
      and poses: "get_poses env n c = Inr (robot_pose, gridmap_origin, scan_origin)"
      and published: "publish_grid env n c robot_pose
         (updateWithPointCloud env (create_single_frame env n gridmap_origin)
            filtered_raw_pc
            (filter_obstacle_pointcloud env n filtered_obstacle_pc filtered_raw_pc)
            robot_pose scan_origin) = Inr (n', effects)"
    show ?thesis
    proof (cases "enable_single_frame_mode n")
      case True
      with publish_grid_result [OF published] show ?thesis by auto
    next
      case False
      with publish_grid_result [OF published] clouds poses show ?thesis
        by (intro disjI2) auto
    qed
  qed
next
  show "run (env\<lparr>declare_parameter_string := ps, declare_parameter_bool := pb,
          declare_parameter_double := pd, OccupancyGridMapBBFUpdater := create\<rparr>) n cs =
     run env n cs"
    by (rule run_without_constructors)
next
  show "occupancy_grid_map_updater (PointcloudBasedOccupancyGridMapNode env) =
     OccupancyGridMapBBFUpdater env
       (uint_of_double env
          (div_double env (declare_parameter_double env ''map_length'' 100)
             (declare_parameter_double env ''map_resolution'' (1 / 2))))
       (uint_of_double env
          (div_double env (declare_parameter_double env ''map_length'' 100)
             (declare_parameter_double env ''map_resolution'' (1 / 2))))
       (declare_parameter_double env ''map_resolution'' (1 / 2))"
    by (simp add: PointcloudBasedOccupancyGridMapNode_def Let_def)
next
  fix n' effects
  assume "run env (PointcloudBasedOccupancyGridMapNode env) cs = Inr (n', effects)"
  then show "fused env (occupancy_grid_map_updater (PointcloudBasedOccupancyGridMapNode env))
        (occupancy_grid_map_updater n')"
    by (rule run_fused) (rule fused_start)
qed

theorem persistent_grid_fused_once_per_cycle_witness:
  "onPointcloudWithObstacleAndRaw test_env test_node test_cycle =
     Inr (test_config (test_cells (19 / 2) (39 / 2) [2, 3, 4, 5]), test_effects [4, 6, 8, 10]) \<and>
   run test_env test_node [test_cycle, test_cycle] =
     Inr (test_config (test_cells (19 / 2) (39 / 2) [4, 6, 8, 10]),
          test_effects [4, 6, 8, 10] @ test_effects [8, 12, 16, 20]) \<and>
   fused test_env (test_cells 0 0 [0, 0, 0, 0]) (test_cells (19 / 2) (39 / 2) [4, 6, 8, 10])"
proof -
  have once: "onPointcloudWithObstacleAndRaw test_env test_node test_cycle =
     Inr (test_config (test_cells (19 / 2) (39 / 2) [2, 3, 4, 5]), test_effects [4, 6, 8, 10])"
    by (simp add: test_node_eq test_cycle_fused test_effects_def)
  have twice: "run test_env test_node [test_cycle, test_cycle] =
     Inr (test_config (test_cells (19 / 2) (39 / 2) [4, 6, 8, 10]),
          test_effects [4, 6, 8, 10] @ test_effects [8, 12, 16, 20])"
    using test_run_twice by (simp only: test_effects_def append.simps)
  from persistent_grid_fused_once_per_cycle [where env = test_env
      and cs = "[test_cycle, test_cycle]"]
  have "\<forall>n' effects. run test_env (PointcloudBasedOccupancyGridMapNode test_env)
        [test_cycle, test_cycle] = Inr (n', effects) \<longrightarrow>
      fused test_env (occupancy_grid_map_updater (PointcloudBasedOccupancyGridMapNode test_env))
        (occupancy_grid_map_updater n')"
    by blast
  with twice have "fused test_env (occupancy_grid_map_updater test_node)
      (occupancy_grid_map_updater (test_config (test_cells (19 / 2) (39 / 2) [4, 6, 8, 10])))"
    by (simp add: test_node_def)
  with once twice show ?thesis
    by (simp add: test_node_eq test_config_def)
qed

section \<open>Configuration\<close>

text \<open>A cycle leaves the updater as it is or replaces it by one result of \<open>update\<close> on it.\<close>

lemma onPointcloud_updater:
  assumes "onPointcloudWithObstacleAndRaw env n c = Inr (n', effects)"
  shows "occupancy_grid_map_updater n' = occupancy_grid_map_updater n \<or>
    (\<exists>single_frame. occupancy_grid_map_updater n' =
       update env (occupancy_grid_map_updater n) single_frame)"
  using assms
proof (cases rule: onPointcloud_skipped_or_published)
  case skipped
  then show ?thesis by simp
next
  case (published filtered_obstacle_pc filtered_raw_pc robot_pose gridmap_origin scan_origin)
  note result = publish_grid_result [OF this]
  show ?thesis
  proof (cases "enable_single_frame_mode n")
    case True
    with result show ?thesis by auto
  next
    case False
    with result show ?thesis by auto
  qed
qed

lemma onPointcloud_keeps_size:
  assumes "update_keeps_size env"
    and "onPointcloudWithObstacleAndRaw env n c = Inr (n', effects)"
  shows "getSizeInCellsX (occupancy_grid_map_updater n') =
           getSizeInCellsX (occupancy_grid_map_updater n) \<and>
         getSizeInCellsY (occupancy_grid_map_updater n') =
           getSizeInCellsY (occupancy_grid_map_updater n) \<and>
         getResolution (occupancy_grid_map_updater n') =
           getResolution (occupancy_grid_map_updater n)"
  using onPointcloud_updater [OF assms(2)] assms(1)
  by (auto simp: update_keeps_size_def)

lemma run_keeps_size:
  "update_keeps_size env \<Longrightarrow> run env n cs = Inr (n', effects) \<Longrightarrow>
   getSizeInCellsX (occupancy_grid_map_updater n') =
     getSizeInCellsX (occupancy_grid_map_updater n) \<and>
   getSizeInCellsY (occupancy_grid_map_updater n') =
     getSizeInCellsY (occupancy_grid_map_updater n) \<and>
   getResolution (occupancy_grid_map_updater n') =
     getResolution (occupancy_grid_map_updater n)"
proof (induction cs arbitrary: n effects)
  case Nil
  then show ?case by simp
next
  case (Cons c cs)
  from Cons.prems(2) obtain n1 effects1 effects2
    where first: "onPointcloudWithObstacleAndRaw env n c = Inr (n1, effects1)"
      and rest: "run env n1 cs = Inr (n', effects2)"
    by (auto split: sum.splits prod.splits)
  from onPointcloud_keeps_size [OF Cons.prems(1) first] Cons.IH [OF Cons.prems(1) rest]
  show ?case by simp
qed

lemma test_update_keeps_size: "update_keeps_size test_env"
  by (simp add: update_keeps_size_def test_env_def)

text \<open>
  Claim C8. The four frames and the three toggles are what the constructor read from
  the parameters, and no number of cycles changes any of them; the cycles read no
  parameter. Map length and resolution are read by the constructor too, and go into
  the updater it creates: its width and height in cells are their quotient, its
  resolution the resolution. With an \<open>update\<close> that keeps the size of the grid, as the
  specification's does, they are still that after any number of cycles.
\<close>

theorem configuration_fixed_at_construction:
  "(\<forall>n' effects. run env n cs = Inr (n', effects) \<longrightarrow>
      map_frame n' = map_frame n \<and>
      base_link_frame n' = base_link_frame n \<and>
      gridmap_origin_frame n' = gridmap_origin_frame n \<and>
      scan_origin_frame n' = scan_origin_frame n \<and>
      use_height_filter n' = use_height_filter n \<and>
      enable_single_frame_mode n' = enable_single_frame_mode n \<and>
      filter_obstacle_pointcloud_by_raw_pointcloud n' =
        filter_obstacle_pointcloud_by_raw_pointcloud n \<and>
      (update_keeps_size env \<longrightarrow>
         getSizeInCellsX (occupancy_grid_map_updater n') =
           getSizeInCellsX (occupancy_grid_map_updater n) \<and>
         getSizeInCellsY (occupancy_grid_map_updater n') =
           getSizeInCellsY (occupancy_grid_map_updater n) \<and>
         getResolution (occupancy_grid_map_updater n') =
           getResolution (occupancy_grid_map_updater n))) \<and>
   run (env\<lparr>declare_parameter_string := ps, declare_parameter_bool := pb,
          declare_parameter_double := pd, OccupancyGridMapBBFUpdater := create\<rparr>) n cs =
     run env n cs \<and>
   map_frame (PointcloudBasedOccupancyGridMapNode env) =
     declare_parameter_string env ''map_frame'' ''map'' \<and>
   base_link_frame (PointcloudBasedOccupancyGridMapNode env) =
     declare_parameter_string env ''base_link_frame'' ''base_link'' \<and>
   gridmap_origin_frame (PointcloudBasedOccupancyGridMapNode env) =
     declare_parameter_string env ''gridmap_origin_frame'' ''base_link'' \<and>
   scan_origin_frame (PointcloudBasedOccupancyGridMapNode env) =
     declare_parameter_string env ''scan_origin_frame'' ''base_link'' \<and>
   use_height_filter (PointcloudBasedOccupancyGridMapNode env) =
     declare_parameter_bool env ''use_height_filter'' True \<and>
   enable_single_frame_mode (PointcloudBasedOccupancyGridMapNode env) =
     declare_parameter_bool env ''enable_single_frame_mode'' False \<and>
   filter_obstacle_pointcloud_by_raw_pointcloud (PointcloudBasedOccupancyGridMapNode env) =
     declare_parameter_bool env ''filter_obstacle_pointcloud_by_raw_pointcloud'' False \<and>
   occupancy_grid_map_updater (PointcloudBasedOccupancyGridMapNode env) =
     OccupancyGridMapBBFUpdater env
       (uint_of_double env
          (div_double env (declare_parameter_double env ''map_length'' 100)
             (declare_parameter_double env ''map_resolution'' (1 / 2))))
       (uint_of_double env
          (div_double env (declare_parameter_double env ''map_length'' 100)
             (declare_parameter_double env ''map_resolution'' (1 / 2))))
       (declare_parameter_double env ''map_resolution'' (1 / 2)) \<and>
   (created unknown
      (uint_of_double env
         (div_double env (declare_parameter_double env ''map_length'' 100)
            (declare_parameter_double env ''map_resolution'' (1 / 2))))
      (uint_of_double env
         (div_double env (declare_parameter_double env ''map_length'' 100)
            (declare_parameter_double env ''map_resolution'' (1 / 2))))
      (declare_parameter_double env ''map_resolution'' (1 / 2))
      (occupancy_grid_map_updater (PointcloudBasedOccupancyGridMapNode env)) \<and>
    update_keeps_size env \<longrightarrow>
      (\<forall>n' effects.
         run env (PointcloudBasedOccupancyGridMapNode env) cs = Inr (n', effects) \<longrightarrow>
           getSizeInCellsX (occupancy_grid_map_updater n') =
             uint_of_double env
               (div_double env (declare_parameter_double env ''map_length'' 100)
                  (declare_parameter_double env ''map_resolution'' (1 / 2))) \<and>
           getSizeInCellsY (occupancy_grid_map_updater n') =
             uint_of_double env
               (div_double env (declare_parameter_double env ''map_length'' 100)
                  (declare_parameter_double env ''map_resolution'' (1 / 2))) \<and>
           getResolution (occupancy_grid_map_updater n') =
             declare_parameter_double env ''map_resolution'' (1 / 2)))"
proof (intro conjI allI impI)
  fix n' effects
  assume finished: "run env n cs = Inr (n', effects)"
  from run_config [OF finished] obtain g where n': "n' = n\<lparr>occupancy_grid_map_updater := g\<rparr>" ..
  from n' show "map_frame n' = map_frame n" by simp
  from n' show "base_link_frame n' = base_link_frame n" by simp
  from n' show "gridmap_origin_frame n' = gridmap_origin_frame n" by simp
  from n' show "scan_origin_frame n' = scan_origin_frame n" by simp
  from n' show "use_height_filter n' = use_height_filter n" by simp
  from n' show "enable_single_frame_mode n' = enable_single_frame_mode n" by simp
  from n' show "filter_obstacle_pointcloud_by_raw_pointcloud n' =
      filter_obstacle_pointcloud_by_raw_pointcloud n" by simp
  assume keeps: "update_keeps_size env"
  note kept = run_keeps_size [OF keeps finished]
  from kept show "getSizeInCellsX (occupancy_grid_map_updater n') =
      getSizeInCellsX (occupancy_grid_map_updater n)" by simp
  from kept show "getSizeInCellsY (occupancy_grid_map_updater n') =
      getSizeInCellsY (occupancy_grid_map_updater n)" by simp
  from kept show "getResolution (occupancy_grid_map_updater n') =
      getResolution (occupancy_grid_map_updater n)" by simp
next
  show "run (env\<lparr>declare_parameter_string := ps, declare_parameter_bool := pb,
          declare_parameter_double := pd, OccupancyGridMapBBFUpdater := create\<rparr>) n cs =
     run env n cs"
    by (rule run_without_constructors)
next
  fix n' effects
  assume startup: "created unknown
      (uint_of_double env
         (div_double env (declare_parameter_double env ''map_length'' 100)
            (declare_parameter_double env ''map_resolution'' (1 / 2))))
      (uint_of_double env
         (div_double env (declare_parameter_double env ''map_length'' 100)
            (declare_parameter_double env ''map_resolution'' (1 / 2))))
      (declare_parameter_double env ''map_resolution'' (1 / 2))
      (occupancy_grid_map_updater (PointcloudBasedOccupancyGridMapNode env)) \<and>
    update_keeps_size env"
    and finished: "run env (PointcloudBasedOccupancyGridMapNode env) cs = Inr (n', effects)"
  from startup have keeps: "update_keeps_size env" ..
  note kept = run_keeps_size [OF keeps finished]
  from startup kept
  show "getSizeInCellsX (occupancy_grid_map_updater n') =
      uint_of_double env
        (div_double env (declare_parameter_double env ''map_length'' 100)
           (declare_parameter_double env ''map_resolution'' (1 / 2)))"
    by (simp add: created_def)
  from startup kept
  show "getSizeInCellsY (occupancy_grid_map_updater n') =
      uint_of_double env
        (div_double env (declare_parameter_double env ''map_length'' 100)
           (declare_parameter_double env ''map_resolution'' (1 / 2)))"
    by (simp add: created_def)
  from startup kept
  show "getResolution (occupancy_grid_map_updater n') =
      declare_parameter_double env ''map_resolution'' (1 / 2)"
    by (simp add: created_def)
qed (simp_all add: PointcloudBasedOccupancyGridMapNode_def Let_def)

theorem configuration_fixed_at_construction_witness:
  "run test_env test_node [test_cycle, test_cycle] =
     Inr (test_config (test_cells (19 / 2) (39 / 2) [4, 6, 8, 10]),
          test_effects [4, 6, 8, 10] @ test_effects [8, 12, 16, 20]) \<and>
   update_keeps_size test_env \<and>
   created 0
     (uint_of_double test_env
        (div_double test_env (declare_parameter_double test_env ''map_length'' 100)
           (declare_parameter_double test_env ''map_resolution'' (1 / 2))))
     (uint_of_double test_env
        (div_double test_env (declare_parameter_double test_env ''map_length'' 100)
           (declare_parameter_double test_env ''map_resolution'' (1 / 2))))
     (declare_parameter_double test_env ''map_resolution'' (1 / 2))
     (occupancy_grid_map_updater (PointcloudBasedOccupancyGridMapNode test_env)) \<and>
   declare_parameter_double test_env ''map_length'' 100 = 1 \<and>
   declare_parameter_double test_env ''map_resolution'' (1 / 2) = 1 / 2 \<and>
   uint_of_double test_env (div_double test_env 1 (1 / 2)) = 2 \<and>
   occupancy_grid_map_updater test_node = test_grid 2 2 (1 / 2) \<and>
   map_frame (test_config (test_cells (19 / 2) (39 / 2) [4, 6, 8, 10])) = ''map'' \<and>
   use_height_filter (test_config (test_cells (19 / 2) (39 / 2) [4, 6, 8, 10])) \<and>
   getSizeInCellsX (test_cells (19 / 2) (39 / 2) [4, 6, 8, 10]) = 2 \<and>
   getSizeInCellsY (test_cells (19 / 2) (39 / 2) [4, 6, 8, 10]) = 2 \<and>
   getResolution (test_cells (19 / 2) (39 / 2) [4, 6, 8, 10]) = 1 / 2"
proof -
  let ?n = "test_config (test_cells (19 / 2) (39 / 2) [4, 6, 8, 10])"
  have twice: "run test_env test_node [test_cycle, test_cycle] =
     Inr (?n, test_effects [4, 6, 8, 10] @ test_effects [8, 12, 16, 20])"
    using test_run_twice by (simp only: test_effects_def append.simps)
  have parameters: "declare_parameter_double test_env ''map_length'' 100 = 1"
    "declare_parameter_double test_env ''map_resolution'' (1 / 2) = 1 / 2"
    "uint_of_double test_env (div_double test_env 1 (1 / 2)) = 2"
    by (simp_all add: test_env_def div_double_def)
  have startup: "created 0
     (uint_of_double test_env
        (div_double test_env (declare_parameter_double test_env ''map_length'' 100)
           (declare_parameter_double test_env ''map_resolution'' (1 / 2))))
     (uint_of_double test_env
        (div_double test_env (declare_parameter_double test_env ''map_length'' 100)
           (declare_parameter_double test_env ''map_resolution'' (1 / 2))))
     (declare_parameter_double test_env ''map_resolution'' (1 / 2))
     (occupancy_grid_map_updater (PointcloudBasedOccupancyGridMapNode test_env))"
    using test_node_eq
    by (simp add: parameters test_node_def created_def test_config_def test_cells_def
        replicate_4)
  note claim = configuration_fixed_at_construction [where env = test_env and n = test_node
      and cs = "[test_cycle, test_cycle]" and unknown = 0]
  from claim twice
  have kept: "map_frame ?n = map_frame test_node" "use_height_filter ?n = use_height_filter test_node"
    by blast+
  from claim have read: "map_frame test_node = ''map''" "use_height_filter test_node"
    "occupancy_grid_map_updater test_node = test_grid 2 2 (1 / 2)"
    by (simp_all add: test_node_def parameters) (simp_all add: test_env_def)
  from claim startup test_update_keeps_size
  have "\<forall>n' effects.
      run test_env (PointcloudBasedOccupancyGridMapNode test_env) [test_cycle, test_cycle] =
        Inr (n', effects) \<longrightarrow>
      getSizeInCellsX (occupancy_grid_map_updater n') =
        uint_of_double test_env
          (div_double test_env (declare_parameter_double test_env ''map_length'' 100)
             (declare_parameter_double test_env ''map_resolution'' (1 / 2))) \<and>
      getSizeInCellsY (occupancy_grid_map_updater n') =
        uint_of_double test_env
          (div_double test_env (declare_parameter_double test_env ''map_length'' 100)
             (declare_parameter_double test_env ''map_resolution'' (1 / 2))) \<and>
      getResolution (occupancy_grid_map_updater n') =
        declare_parameter_double test_env ''map_resolution'' (1 / 2)"
    by blast
  with twice have size: "getSizeInCellsX (occupancy_grid_map_updater ?n) = 2"
    "getSizeInCellsY (occupancy_grid_map_updater ?n) = 2"
    "getResolution (occupancy_grid_map_updater ?n) = 1 / 2"
    by (simp_all add: test_node_def [symmetric] parameters)
  then have cells: "getSizeInCellsX (test_cells (19 / 2) (39 / 2) [4, 6, 8, 10]) = 2"
    "getSizeInCellsY (test_cells (19 / 2) (39 / 2) [4, 6, 8, 10]) = 2"
    "getResolution (test_cells (19 / 2) (39 / 2) [4, 6, 8, 10]) = 1 / 2"
    by (simp_all add: test_config_def)
  from kept read have config: "map_frame ?n = ''map''" "use_height_filter ?n"
    by simp_all
  from twice test_update_keeps_size startup parameters read(3) config cells show ?thesis
    by (intro conjI)
qed

section \<open>The height filter\<close>

text \<open>
  Claim C9. With the height filter enabled, each input cloud is cropped to the heights
  from \<open>-1\<close> to \<open>2\<close> in the base-link frame. If cropping one of them fails, the cycle
  ends at once: the node is as before and nothing is published or logged. If both
  crops succeed the cycle goes on with them: it looks the poses up and, when they are
  there, fills the single-frame grid from the cropped raw cloud and the cropped (and
  then filtered) obstacle cloud and publishes. The cycle's outcome depends on the input
  clouds through their crops and the raw cloud's header only.
\<close>

theorem height_filter_crops_or_abandons:
  assumes "use_height_filter n"
  shows "(cropPointcloudByHeight env (input_obstacle_msg c) (tf2 c) (base_link_frame n) (- 1) 2 =
            None \<or>
          cropPointcloudByHeight env (input_raw_msg c) (tf2 c) (base_link_frame n) (- 1) 2 =
            None \<longrightarrow>
            onPointcloudWithObstacleAndRaw env n c = Inr (n, [])) \<and>
         (cropPointcloudByHeight env (input_obstacle_msg c) (tf2 c) (base_link_frame n) (- 1) 2 =
            Some cropped_obstacle_pc \<and>
          cropPointcloudByHeight env (input_raw_msg c) (tf2 c) (base_link_frame n) (- 1) 2 =
            Some cropped_raw_pc \<longrightarrow>
            onPointcloudWithObstacleAndRaw env n c =
              (case get_poses env n c of
                 Inl ex \<Rightarrow> Inr (n, [Warn ex])
               | Inr (robot_pose, gridmap_origin, scan_origin) \<Rightarrow>
                   publish_grid env n c robot_pose
                     (updateWithPointCloud env (create_single_frame env n gridmap_origin)
                        cropped_raw_pc
                        (filter_obstacle_pointcloud env n cropped_obstacle_pc cropped_raw_pc)
                        robot_pose scan_origin))) \<and>
         (cropPointcloudByHeight env (input_obstacle_msg c') (tf2 c') (base_link_frame n) (- 1) 2 =
            cropPointcloudByHeight env (input_obstacle_msg c) (tf2 c) (base_link_frame n) (- 1) 2 \<and>
          cropPointcloudByHeight env (input_raw_msg c') (tf2 c') (base_link_frame n) (- 1) 2 =
            cropPointcloudByHeight env (input_raw_msg c) (tf2 c) (base_link_frame n) (- 1) 2 \<and>
          pc_header (input_raw_msg c') = pc_header (input_raw_msg c) \<and>
          tf2 c' = tf2 c \<and>
          cyclic_time_ms c' = cyclic_time_ms c \<and>
          processing_time_ms c' = processing_time_ms c \<longrightarrow>
            onPointcloudWithObstacleAndRaw env n c' = onPointcloudWithObstacleAndRaw env n c)"
proof (intro conjI impI)
  assume "cropPointcloudByHeight env (input_obstacle_msg c) (tf2 c) (base_link_frame n) (- 1) 2 =
            None \<or>
          cropPointcloudByHeight env (input_raw_msg c) (tf2 c) (base_link_frame n) (- 1) 2 =
            None"
  with assms have "apply_height_filter env n c = None"
    by (auto simp: apply_height_filter_def split: option.splits)
  then show "onPointcloudWithObstacleAndRaw env n c = Inr (n, [])"
    by (simp add: onPointcloud_cases)
next
  assume "cropPointcloudByHeight env (input_obstacle_msg c) (tf2 c) (base_link_frame n) (- 1) 2 =
            Some cropped_obstacle_pc \<and>
          cropPointcloudByHeight env (input_raw_msg c) (tf2 c) (base_link_frame n) (- 1) 2 =
            Some cropped_raw_pc"
  with assms have "apply_height_filter env n c = Some (cropped_obstacle_pc, cropped_raw_pc)"
    by (simp add: apply_height_filter_def)
  then show "onPointcloudWithObstacleAndRaw env n c =
      (case get_poses env n c of
         Inl ex \<Rightarrow> Inr (n, [Warn ex])
       | Inr (robot_pose, gridmap_origin, scan_origin) \<Rightarrow>
           publish_grid env n c robot_pose
             (updateWithPointCloud env (create_single_frame env n gridmap_origin)
                cropped_raw_pc
                (filter_obstacle_pointcloud env n cropped_obstacle_pc cropped_raw_pc)
                robot_pose scan_origin))"
    by (simp add: onPointcloud_cases)
next
  assume same: "cropPointcloudByHeight env (input_obstacle_msg c') (tf2 c') (base_link_frame n) (- 1) 2 =
            cropPointcloudByHeight env (input_obstacle_msg c) (tf2 c) (base_link_frame n) (- 1) 2 \<and>
          cropPointcloudByHeight env (input_raw_msg c') (tf2 c') (base_link_frame n) (- 1) 2 =
            cropPointcloudByHeight env (input_raw_msg c) (tf2 c) (base_link_frame n) (- 1) 2 \<and>
          pc_header (input_raw_msg c') = pc_header (input_raw_msg c) \<and>
          tf2 c' = tf2 c \<and>
          cyclic_time_ms c' = cyclic_time_ms c \<and>
          processing_time_ms c' = processing_time_ms c"
  with assms have "apply_height_filter env n c' = apply_height_filter env n c"
    unfolding apply_height_filter_def by (elim conjE) (simp only: if_True)
  moreover from same have "get_poses env n c' = get_poses env n c"
    by (simp add: get_poses_def cong: case_congs)
  moreover from same have "publish_grid env n c' p g = publish_grid env n c p g" for p g
    by (simp add: publish_grid_def debug_publish_def cong: case_congs)
  ultimately show "onPointcloudWithObstacleAndRaw env n c' = onPointcloudWithObstacleAndRaw env n c"
    by (simp add: onPointcloud_cases cong: case_congs)
qed

theorem height_filter_crops_or_abandons_witness:
  "use_height_filter (test_node\<lparr>base_link_frame := ''lost''\<rparr>) \<and>
   cropPointcloudByHeight test_env (input_obstacle_msg test_cycle) (tf2 test_cycle)
     (base_link_frame (test_node\<lparr>base_link_frame := ''lost''\<rparr>)) (- 1) 2 = None \<and>
   onPointcloudWithObstacleAndRaw test_env (test_node\<lparr>base_link_frame := ''lost''\<rparr>)
     test_cycle = Inr (test_node\<lparr>base_link_frame := ''lost''\<rparr>, []) \<and>
   use_height_filter test_node \<and>
   cropPointcloudByHeight test_env (input_obstacle_msg test_cycle) (tf2 test_cycle)
     (base_link_frame test_node) (- 1) 2 = Some test_cropped \<and>
   cropPointcloudByHeight test_env (input_raw_msg test_cycle) (tf2 test_cycle)
     (base_link_frame test_node) (- 1) 2 = Some test_cropped \<and>
   get_poses test_env test_node test_cycle = Inr (test_pose, test_pose, test_pose) \<and>
   onPointcloudWithObstacleAndRaw test_env test_node test_cycle =
     publish_grid test_env test_node test_cycle test_pose
       (updateWithPointCloud test_env (create_single_frame test_env test_node test_pose)
          test_cropped
          (filter_obstacle_pointcloud test_env test_node test_cropped test_cropped)
          test_pose test_pose) \<and>
   onPointcloudWithObstacleAndRaw test_env test_node test_cycle =
     Inr (test_config (test_cells (19 / 2) (39 / 2) [2, 3, 4, 5]), test_effects [4, 6, 8, 10]) \<and>
   input_obstacle_msg test_cycle_other \<noteq> input_obstacle_msg test_cycle \<and>
   cropPointcloudByHeight test_env (input_obstacle_msg test_cycle_other) (tf2 test_cycle_other)
     (base_link_frame test_node) (- 1) 2 = Some test_cropped \<and>
   onPointcloudWithObstacleAndRaw test_env test_node test_cycle_other =
     Inr (test_config (test_cells (19 / 2) (39 / 2) [2, 3, 4, 5]), test_effects [4, 6, 8, 10])"
proof -
  have lost: "use_height_filter (test_node\<lparr>base_link_frame := ''lost''\<rparr>)"
    and on: "use_height_filter test_node"
    by (simp_all add: test_node_eq test_config_def)
  have fails: "cropPointcloudByHeight test_env (input_obstacle_msg test_cycle) (tf2 test_cycle)
     (base_link_frame (test_node\<lparr>base_link_frame := ''lost''\<rparr>)) (- 1) 2 = None"
    by (simp add: test_env_def)
  have crops: "cropPointcloudByHeight test_env (input_obstacle_msg test_cycle) (tf2 test_cycle)
       (base_link_frame test_node) (- 1) 2 = Some test_cropped"
    "cropPointcloudByHeight test_env (input_raw_msg test_cycle) (tf2 test_cycle)
       (base_link_frame test_node) (- 1) 2 = Some test_cropped"
    "cropPointcloudByHeight test_env (input_obstacle_msg test_cycle_other)
       (tf2 test_cycle_other) (base_link_frame test_node) (- 1) 2 = Some test_cropped"
    "cropPointcloudByHeight test_env (input_raw_msg test_cycle_other)
       (tf2 test_cycle_other) (base_link_frame test_node) (- 1) 2 = Some test_cropped"
    by (simp_all add: test_env_def test_node_eq test_config_def test_cycle_def
        test_cycle_other_def test_cloud_def test_cropped_def)
  have other: "input_obstacle_msg test_cycle_other \<noteq> input_obstacle_msg test_cycle"
    "pc_header (input_raw_msg test_cycle_other) = pc_header (input_raw_msg test_cycle)"
    "tf2 test_cycle_other = tf2 test_cycle"
    "cyclic_time_ms test_cycle_other = cyclic_time_ms test_cycle"
    "processing_time_ms test_cycle_other = processing_time_ms test_cycle"
    by (simp_all add: test_cycle_other_def test_cycle_def test_cloud_def)
  from height_filter_crops_or_abandons [OF lost, where env = test_env and c = test_cycle] fails
  have abandoned: "onPointcloudWithObstacleAndRaw test_env
      (test_node\<lparr>base_link_frame := ''lost''\<rparr>) test_cycle =
      Inr (test_node\<lparr>base_link_frame := ''lost''\<rparr>, [])"
    by blast
  note claim = height_filter_crops_or_abandons [OF on, where env = test_env and c = test_cycle
      and c' = test_cycle_other and cropped_obstacle_pc = test_cropped
      and cropped_raw_pc = test_cropped]
  have poses: "get_poses test_env test_node test_cycle =
      Inr (test_pose, test_pose, test_pose)"
    by (simp add: test_node_eq test_poses)
  from claim crops
  have "onPointcloudWithObstacleAndRaw test_env test_node test_cycle =
      (case get_poses test_env test_node test_cycle of
         Inl ex \<Rightarrow> Inr (test_node, [Warn ex])
       | Inr (robot_pose, gridmap_origin, scan_origin) \<Rightarrow>
           publish_grid test_env test_node test_cycle robot_pose
             (updateWithPointCloud test_env
                (create_single_frame test_env test_node gridmap_origin) test_cropped
                (filter_obstacle_pointcloud test_env test_node test_cropped test_cropped)
                robot_pose scan_origin))"
    by blast
  with poses have continued: "onPointcloudWithObstacleAndRaw test_env test_node test_cycle =
      publish_grid test_env test_node test_cycle test_pose
        (updateWithPointCloud test_env (create_single_frame test_env test_node test_pose)
           test_cropped
           (filter_obstacle_pointcloud test_env test_node test_cropped test_cropped)
           test_pose test_pose)"
    by simp
  have result: "onPointcloudWithObstacleAndRaw test_env test_node test_cycle =
      Inr (test_config (test_cells (19 / 2) (39 / 2) [2, 3, 4, 5]), test_effects [4, 6, 8, 10])"
    by (simp add: test_node_eq test_cycle_fused test_effects_def)
  from claim crops other
  have "onPointcloudWithObstacleAndRaw test_env test_node test_cycle_other =
      onPointcloudWithObstacleAndRaw test_env test_node test_cycle"
    by simp
  with result
  have same: "onPointcloudWithObstacleAndRaw test_env test_node test_cycle_other =
      Inr (test_config (test_cells (19 / 2) (39 / 2) [2, 3, 4, 5]), test_effects [4, 6, 8, 10])"
    by simp
  from lost on fails crops(1,2,3) other(1) abandoned poses continued result same
  show ?thesis
    by (intro conjI)
qed

section \<open>The obstacle filter\<close>

text \<open>
  Claim C10. With filtering of the obstacle cloud by the raw cloud enabled, a failed
  extraction of the common points does not end the cycle: the obstacle cloud is used as
  it is, and the cycle does what it would do with the filter disabled.
\<close>

theorem extraction_failure_falls_back:
  assumes "filter_obstacle_pointcloud_by_raw_pointcloud n"
    and "apply_height_filter env n c = Some (filtered_obstacle_pc, filtered_raw_pc)"
    and "extractCommonPointCloud env filtered_obstacle_pc filtered_raw_pc = None"
  shows "filter_obstacle_pointcloud env n filtered_obstacle_pc filtered_raw_pc =
           filtered_obstacle_pc \<and>
         onPointcloudWithObstacleAndRaw env n c =
           map_sum id
             (map_prod (\<lambda>n'. n'\<lparr>filter_obstacle_pointcloud_by_raw_pointcloud := True\<rparr>) id)
             (onPointcloudWithObstacleAndRaw env
                (n\<lparr>filter_obstacle_pointcloud_by_raw_pointcloud := False\<rparr>) c)"
proof
  from assms(1,3)
  show fallback: "filter_obstacle_pointcloud env n filtered_obstacle_pc filtered_raw_pc =
      filtered_obstacle_pc"
    by (simp add: filter_obstacle_pointcloud_def)
  let ?off = "n\<lparr>filter_obstacle_pointcloud_by_raw_pointcloud := False\<rparr>"
  have off: "n = ?off\<lparr>filter_obstacle_pointcloud_by_raw_pointcloud := True\<rparr>"
    using assms(1) by simp
  have clouds: "apply_height_filter env ?off c = Some (filtered_obstacle_pc, filtered_raw_pc)"
    using assms(2) by (simp add: apply_height_filter_def cong: case_congs)
  have poses: "get_poses env ?off c = get_poses env n c"
    by (simp add: get_poses_def cong: case_congs)
  have unfiltered: "filter_obstacle_pointcloud env ?off filtered_obstacle_pc filtered_raw_pc =
      filtered_obstacle_pc"
    by (simp add: filter_obstacle_pointcloud_def)
  have grid: "create_single_frame env ?off gridmap_origin = create_single_frame env n gridmap_origin"
    for gridmap_origin
    by (simp add: create_single_frame_def)
  have publish: "publish_grid env n c p g =
      map_sum id (map_prod (\<lambda>n'. n'\<lparr>filter_obstacle_pointcloud_by_raw_pointcloud := True\<rparr>) id)
        (publish_grid env ?off c p g)" for p g
    using publish_grid_filter_flag [where n = ?off and b = True and env = env and c = c
        and p = p and g = g] off by simp
  show "onPointcloudWithObstacleAndRaw env n c =
           map_sum id
             (map_prod (\<lambda>n'. n'\<lparr>filter_obstacle_pointcloud_by_raw_pointcloud := True\<rparr>) id)
             (onPointcloudWithObstacleAndRaw env ?off c)"
    using assms(1)
    by (simp add: onPointcloud_cases assms(2) clouds poses fallback unfiltered grid publish
        split: sum.splits prod.splits)
qed

theorem extraction_failure_falls_back_witness:
  "filter_obstacle_pointcloud_by_raw_pointcloud
     (test_node\<lparr>filter_obstacle_pointcloud_by_raw_pointcloud := True\<rparr>) \<and>
   apply_height_filter test_env
     (test_node\<lparr>filter_obstacle_pointcloud_by_raw_pointcloud := True\<rparr>) test_cycle =
     Some (test_cropped, test_cropped) \<and>
   extractCommonPointCloud test_env test_cropped test_cropped = None \<and>
   onPointcloudWithObstacleAndRaw test_env
     (test_node\<lparr>filter_obstacle_pointcloud_by_raw_pointcloud := True\<rparr>) test_cycle =
     Inr ((test_config (test_cells (19 / 2) (39 / 2) [2, 3, 4, 5]))
            \<lparr>filter_obstacle_pointcloud_by_raw_pointcloud := True\<rparr>,
          test_effects [4, 6, 8, 10])"
proof -
  have flag: "filter_obstacle_pointcloud_by_raw_pointcloud
     (test_node\<lparr>filter_obstacle_pointcloud_by_raw_pointcloud := True\<rparr>)"
    by simp
  have clouds: "apply_height_filter test_env
     (test_node\<lparr>filter_obstacle_pointcloud_by_raw_pointcloud := True\<rparr>) test_cycle =
     Some (test_cropped, test_cropped)"
    by (simp add: apply_height_filter_def test_env_def test_node_eq test_config_def
        test_cycle_def test_cloud_def test_cropped_def)
  have fails: "extractCommonPointCloud test_env test_cropped test_cropped = None"
    by (simp add: test_env_def)
  have off: "test_node\<lparr>filter_obstacle_pointcloud_by_raw_pointcloud := True,
      filter_obstacle_pointcloud_by_raw_pointcloud := False\<rparr> = test_node"
    by (simp add: test_node_eq test_config_def)
  have unfiltered: "onPointcloudWithObstacleAndRaw test_env test_node test_cycle =
     Inr (test_config (test_cells (19 / 2) (39 / 2) [2, 3, 4, 5]), test_effects [4, 6, 8, 10])"
    by (simp add: test_node_eq test_cycle_fused test_effects_def)
  from extraction_failure_falls_back [OF flag clouds fails] off unfiltered
  have "onPointcloudWithObstacleAndRaw test_env
     (test_node\<lparr>filter_obstacle_pointcloud_by_raw_pointcloud := True\<rparr>) test_cycle =
     Inr ((test_config (test_cells (19 / 2) (39 / 2) [2, 3, 4, 5]))
            \<lparr>filter_obstacle_pointcloud_by_raw_pointcloud := True\<rparr>,
          test_effects [4, 6, 8, 10])"
    by simp
  with flag clouds fails show ?thesis
    by simp
qed

end
